theory Spec2Isabelle
  imports Complex_Main
begin

section \<open>JavaScript values used by the trading engine\<close>

text \<open>
  The engine is \<^verbatim>\<open>src/services/tradingEngine.js\<close>. JavaScript numbers are
  modelled as \<^typ>\<open>real\<close>: the arithmetic of the engine is taken exactly, without
  the rounding of IEEE doubles. A numeric field that may be missing is a
  \<^typ>\<open>real option\<close>, \<open>None\<close> standing for \<^verbatim>\<open>undefined\<close>. A result that is
  not a finite number in JavaScript (\<^verbatim>\<open>NaN\<close>, \<^verbatim>\<open>Infinity\<close>) is \<open>None\<close> as well.
  Strings are byte strings; case conversion is the ASCII one.
\<close>

text \<open>\<^verbatim>\<open>a || b\<close> on numbers: \<^verbatim>\<open>undefined\<close> and \<^verbatim>\<open>0\<close> are falsy.\<close>

definition truthy_num :: "real option \<Rightarrow> bool" where
  "truthy_num a = (case a of None \<Rightarrow> False | Some x \<Rightarrow> x \<noteq> 0)"

definition js_or :: "real option \<Rightarrow> real option \<Rightarrow> real option" where
  "js_or a b = (if truthy_num a then a else b)"

text \<open>\<^verbatim>\<open>a > b\<close>: a comparison with \<^verbatim>\<open>undefined\<close> is false.\<close>

definition js_gt :: "real option \<Rightarrow> real option \<Rightarrow> bool" where
  "js_gt a b = (case (a, b) of (Some x, Some y) \<Rightarrow> x > y | _ \<Rightarrow> False)"

text \<open>
  \<^verbatim>\<open>String.prototype.split\<close> with a one-character separator. The result is never
  empty (\<open>split_on_nonempty\<close> below), so the first branch of the \<open>case\<close> is
  never taken.
\<close>

fun split_on :: "char \<Rightarrow> string \<Rightarrow> string list" where
  "split_on c [] = [[]]"
| "split_on c (x # xs) =
     (if x = c then [] # split_on c xs
      else (case split_on c xs of [] \<Rightarrow> [[x]] | p # ps \<Rightarrow> (x # p) # ps))"

text \<open>\<^verbatim>\<open>Array.prototype.join\<close>, used to state what \<open>split_on\<close> computes.\<close>

fun join_with :: "char \<Rightarrow> string list \<Rightarrow> string" where
  "join_with c [] = []"
| "join_with c [p] = p"
| "join_with c (p # q # ps) = p @ c # join_with c (q # ps)"

section \<open>Risk profile table\<close>

record risk_params =
  maxPositionSize :: real
  volatilityThreshold :: real
  stopLoss :: real
  takeProfit :: real

definition profile_low :: risk_params where
  "profile_low = \<lparr>maxPositionSize = 1 / 10, volatilityThreshold = 2 / 100,
     stopLoss = 95 / 100, takeProfit = 105 / 100\<rparr>"

definition profile_high :: risk_params where
  "profile_high = \<lparr>maxPositionSize = 3 / 10, volatilityThreshold = 5 / 100,
     stopLoss = 90 / 100, takeProfit = 115 / 100\<rparr>"

text \<open>
  \<^verbatim>\<open>profiles[profile] || profiles.low\<close>: the two own keys of the table are
  \<^verbatim>\<open>low\<close> and \<^verbatim>\<open>high\<close>; every other tag falls back to the low profile.
  This is the table for tags that name no property which every object
  inherits: for an inherited key such as \<^verbatim>\<open>constructor\<close> the source takes
  that property, which is no parameter record, and the statements about engines
  of any profile below leave such tags out (\<open>inherited_key\<close>). The terminal
  passes \<^verbatim>\<open>low\<close> or \<^verbatim>\<open>high\<close>.
\<close>

definition inherited_key :: "string \<Rightarrow> bool" where
  "inherited_key tag =
     (tag \<in> set [''constructor'', ''toString'', ''toLocaleString'', ''valueOf'',
                 ''hasOwnProperty'', ''isPrototypeOf'', ''propertyIsEnumerable'', ''__proto__'',
                 ''__defineGetter__'', ''__defineSetter__'', ''__lookupGetter__'',
                 ''__lookupSetter__''])"

definition getRiskParameters :: "string \<Rightarrow> risk_params" where
  "getRiskParameters profile =
     (if profile = ''low'' then profile_low
      else if profile = ''high'' then profile_high
      else profile_low)"

section \<open>Currency identifier parser\<close>

record currency_ref =
  network :: string
  address :: string

definition parseCurrencyId :: "string \<Rightarrow> currency_ref" where
  "parseCurrencyId currencyId =
     (let parts = split_on CHR '':'' currencyId in
      if length parts = 3 then \<lparr>network = parts ! 1, address = parts ! 2\<rparr>
      else if length parts = 2 then \<lparr>network = ''ethereum'', address = parts ! 1\<rparr>
      else \<lparr>network = ''unknown'', address = currencyId\<rparr>)"

section \<open>JSON values\<close>

text \<open>
  A value produced by \<^verbatim>\<open>JSON.parse\<close>. A JavaScript value that may be
  \<^verbatim>\<open>undefined\<close> is an optional such value.
\<close>

datatype json =
    JNull
  | JBool bool
  | JNum real
  | JStr string
  | JArr "json list"
  | JObj "(string \<times> json) list"

datatype js_error = TypeError | SyntaxError | NoJsonArray | FetchFailed

section \<open>Market samples and decisions\<close>

text \<open>
  One interval sample as the market data query selects it. Only the fields that
  the decisions read are kept: \<^verbatim>\<open>Volume\<close> and \<^verbatim>\<open>Interval\<close> are read by the
  prompt text alone. The engine allows for a sample without \<^verbatim>\<open>Price\<close>
  (\<^verbatim>\<open>!latestMetric.Price\<close>), a price without \<^verbatim>\<open>Average\<close> or \<^verbatim>\<open>Ohlc\<close>
  (\<^verbatim>\<open>Price?.Average?.Estimate\<close>, \<^verbatim>\<open>Price?.Ohlc?.Close\<close>) and missing
  numbers (\<^verbatim>\<open>|| 0\<close>), so each of them is optional. For the three objects
  \<open>None\<close> is a field that is missing or \<^verbatim>\<open>null\<close>, which the engine does not
  tell apart; for a number it is a missing field.
\<close>

record ohlc =
  Open :: "real option"
  High :: "real option"
  Low :: "real option"
  Close :: "real option"

record average =
  Estimate :: "real option"
  WeightedSimpleMoving :: "real option"

record price =
  Average :: "average option"
  Ohlc :: "ohlc option"

record sample =
  Price :: "price option"

record currency_metrics =
  m_currencyId :: string
  volatilityData :: json
  tradeMetrics :: "sample list"

record ai_decision =
  currencyId :: string
  decision :: string
  positionType :: string
  confidence :: real
  reasoning :: json
  entryPrice :: "real option"

text \<open>\<^verbatim>\<open>Price.Average?.Estimate\<close> and \<^verbatim>\<open>Price.Average?.WeightedSimpleMoving\<close>.\<close>

definition average_field :: "(average \<Rightarrow> real option) \<Rightarrow> price \<Rightarrow> real option" where
  "average_field f pr = (case Average pr of None \<Rightarrow> None | Some a \<Rightarrow> f a)"

text \<open>
  \<^verbatim>\<open>tradeMetrics[tradeMetrics.length - 1]\<close>, which is \<^verbatim>\<open>undefined\<close> on the
  empty array, followed by \<^verbatim>\<open>latestMetric?.Price?.Average?.Estimate\<close> and
  \<^verbatim>\<open>latestMetric?.Price?.Ohlc?.Close\<close>.
\<close>

definition latest :: "sample list \<Rightarrow> sample option" where
  "latest ms = (if ms = [] then None else Some (last ms))"

definition latest_estimate :: "sample list \<Rightarrow> real option" where
  "latest_estimate ms =
     (case latest ms of None \<Rightarrow> None
      | Some m \<Rightarrow> (case Price m of None \<Rightarrow> None | Some pr \<Rightarrow> average_field Estimate pr))"

definition latest_close :: "sample list \<Rightarrow> real option" where
  "latest_close ms =
     (case latest ms of None \<Rightarrow> None
      | Some m \<Rightarrow> (case Price m of None \<Rightarrow> None
          | Some pr \<Rightarrow> (case Ohlc pr of None \<Rightarrow> None | Some oh \<Rightarrow> Close oh)))"

subsection \<open>Fallback decision heuristic\<close>

text \<open>
  \<^verbatim>\<open>fallbackDecision\<close>. The source reads \<^verbatim>\<open>ohlc.Close\<close> without a guard
  (in \<^verbatim>\<open>ohlc.Close > sma\<close> at the latest), so a latest sample that has a
  \<^verbatim>\<open>Price\<close> but no \<^verbatim>\<open>Ohlc\<close> object raises a \<^verbatim>\<open>TypeError\<close>.
\<close>

definition fallbackDecision :: "string \<Rightarrow> json \<Rightarrow> sample list \<Rightarrow> js_error + ai_decision" where
  "fallbackDecision cid vol metrics =
     (if metrics = [] then
        Inr \<lparr>currencyId = cid, decision = ''hold'', positionType = ''long'',
             confidence = 5 / 10, reasoning = JStr ''No trade metrics available'',
             entryPrice = Some 0\<rparr>
      else
        (case Price (last metrics) of
           None \<Rightarrow>
             Inr \<lparr>currencyId = cid, decision = ''hold'', positionType = ''long'',
                  confidence = 5 / 10, reasoning = JStr ''Insufficient market data'',
                  entryPrice = Some 0\<rparr>
         | Some pr \<Rightarrow>
             (case Ohlc pr of
                None \<Rightarrow> Inl TypeError
              | Some oh \<Rightarrow>
                  (let estimate = js_or (average_field Estimate pr) (Close oh);
                       sma = js_or (average_field WeightedSimpleMoving pr) estimate;
                       isPriceAboveSMA = js_gt (Close oh) sma;
                       isBullish = js_gt (Close oh) (Open oh);
                       action = (if isPriceAboveSMA \<and> isBullish then ''open''
                                 else if \<not> isPriceAboveSMA \<and> \<not> isBullish then ''open''
                                 else ''hold'');
                       type = (if isPriceAboveSMA \<and> isBullish then ''long''
                               else if \<not> isPriceAboveSMA \<and> \<not> isBullish then ''short''
                               else ''long'')
                   in Inr \<lparr>currencyId = cid, decision = action, positionType = type,
                           confidence = 6 / 10,
                           reasoning = JStr (''Fallback: Price ''
                             @ (if isPriceAboveSMA then ''above'' else ''below'')
                             @ '' SMA with ''
                             @ (if isBullish then ''bullish'' else ''bearish'')
                             @ '' candle''),
                           entryPrice = estimate\<rparr>))))"

section \<open>Position ledger\<close>

record position =
  pos_id :: string
  pos_currencyId :: string
  tokenAddress :: string
  pos_network :: string
  pos_type :: string
  pos_entryPrice :: "real option"
  pos_size :: real
  timestamp :: nat
  pos_stopLoss :: real
  pos_takeProfit :: real
  pos_confidence :: real
  pos_reasoning :: json
  expectedProfit :: real

record closed_position =
  closed_of :: position
  currentPrice :: "real option"
  pnl :: "real option"

text \<open>
  The state of a \<^verbatim>\<open>TradingEngine\<close>. The \<^verbatim>\<open>Map\<close> of positions is an
  association list in insertion order: \<^verbatim>\<open>set\<close> on a present key replaces the
  value in place, on a new key it appends.
\<close>

record engine =
  riskProfile :: string
  geminiApiKey :: "string option"
  positions :: "(string \<times> position) list"
  capital :: real
  allocatedCapital :: real
  riskParams :: risk_params

fun map_set :: "'k \<Rightarrow> 'v \<Rightarrow> ('k \<times> 'v) list \<Rightarrow> ('k \<times> 'v) list" where
  "map_set k v [] = [(k, v)]"
| "map_set k v (e # m) = (if fst e = k then (k, v) # m else e # map_set k v m)"

definition map_get :: "('k \<times> 'v) list \<Rightarrow> 'k \<Rightarrow> 'v option" where
  "map_get m k = map_of m k"

definition map_delete :: "'k \<Rightarrow> ('k \<times> 'v) list \<Rightarrow> ('k \<times> 'v) list" where
  "map_delete k m = filter (\<lambda>e. fst e \<noteq> k) m"

definition TradingEngine :: "string \<Rightarrow> string option \<Rightarrow> engine" where
  "TradingEngine profile key =
     \<lparr>riskProfile = profile, geminiApiKey = key, positions = [],
      capital = 100000, allocatedCapital = 0,
      riskParams = getRiskParameters profile\<rparr>"

text \<open>Decimal rendering of \<^verbatim>\<open>Date.now()\<close> in the position id.\<close>

fun digits :: "nat \<Rightarrow> nat \<Rightarrow> string" where
  "digits 0 n = []"
| "digits (Suc fuel) n =
     (if n < 10 then [''0123456789'' ! n]
      else digits fuel (n div 10) @ [''0123456789'' ! (n mod 10)])"

definition show_nat :: "nat \<Rightarrow> string" where
  "show_nat n = digits (Suc n) n"

definition calculateExpectedProfit :: "real \<Rightarrow> real option \<Rightarrow> real \<Rightarrow> real" where
  "calculateExpectedProfit positionSize price takeProfitMultiplier =
     positionSize * (takeProfitMultiplier - 1)"

text \<open>
  \<^verbatim>\<open>openPosition\<close>. The reading \<open>now\<close> of the clock is an argument; the two
  reads of \<^verbatim>\<open>Date.now()\<close> in one call are taken to give the same value.
\<close>

definition openPosition :: "nat \<Rightarrow> engine \<Rightarrow> ai_decision \<Rightarrow> engine \<times> position option" where
  "openPosition now eng aiDecision =
     (if allocatedCapital eng \<ge> capital eng * (9 / 10) then (eng, None)
      else
        (let positionSize = capital eng * maxPositionSize (riskParams eng);
             ref = parseCurrencyId (currencyId aiDecision);
             position = \<lparr>pos_id = ''pos_'' @ show_nat now,
                         pos_currencyId = currencyId aiDecision,
                         tokenAddress = address ref,
                         pos_network = network ref,
                         pos_type = positionType aiDecision,
                         pos_entryPrice = entryPrice aiDecision,
                         pos_size = positionSize,
                         timestamp = now,
                         pos_stopLoss = stopLoss (riskParams eng),
                         pos_takeProfit = takeProfit (riskParams eng),
                         pos_confidence = confidence aiDecision,
                         pos_reasoning = reasoning aiDecision,
                         expectedProfit = calculateExpectedProfit positionSize
                           (entryPrice aiDecision) (takeProfit (riskParams eng))\<rparr>
         in (eng\<lparr>positions := map_set (address ref) position (positions eng),
                 allocatedCapital := allocatedCapital eng + positionSize\<rparr>,
             Some position)))"

text \<open>
  Arithmetic on numbers that may be \<^verbatim>\<open>undefined\<close> or not finite: such an
  operand gives a result that is not finite, and so does a division by zero.
\<close>

definition js_sub :: "real option \<Rightarrow> real option \<Rightarrow> real option" where
  "js_sub a b = (case (a, b) of (Some x, Some y) \<Rightarrow> Some (x - y) | _ \<Rightarrow> None)"

definition js_add :: "real option \<Rightarrow> real option \<Rightarrow> real option" where
  "js_add a b = (case (a, b) of (Some x, Some y) \<Rightarrow> Some (x + y) | _ \<Rightarrow> None)"

definition js_mul :: "real option \<Rightarrow> real option \<Rightarrow> real option" where
  "js_mul a b = (case (a, b) of (Some x, Some y) \<Rightarrow> Some (x * y) | _ \<Rightarrow> None)"

definition js_div :: "real option \<Rightarrow> real option \<Rightarrow> real option" where
  "js_div a b =
     (case (a, b) of (Some x, Some y) \<Rightarrow> (if y = 0 then None else Some (x / y)) | _ \<Rightarrow> None)"

definition closePosition :: "engine \<Rightarrow> position \<Rightarrow> real option \<Rightarrow> engine \<times> closed_position" where
  "closePosition eng position price =
     (let p = (if pos_type position = ''long''
               then js_mul (js_div (js_sub price (pos_entryPrice position)) (pos_entryPrice position))
                      (Some (pos_size position))
               else js_mul (js_div (js_sub (pos_entryPrice position) price) (pos_entryPrice position))
                      (Some (pos_size position)))
      in (eng\<lparr>positions := map_delete (tokenAddress position) (positions eng),
              allocatedCapital := allocatedCapital eng - pos_size position\<rparr>,
          \<lparr>closed_of = position, currentPrice = price, pnl = p\<rparr>))"

definition getOpenPositions :: "engine \<Rightarrow> position list" where
  "getOpenPositions eng = map snd (positions eng)"

subsection \<open>Liquidation\<close>

text \<open>
  The market data client is \<open>None\<close> for \<^verbatim>\<open>null\<close>; otherwise it is its
  \<^verbatim>\<open>getTradeMetrics\<close>, which gives the samples of an identifier or raises
  (\<open>None\<close>).
\<close>

type_synonym bitquery_client = "string \<Rightarrow> sample list option"

definition closing_price :: "bitquery_client option \<Rightarrow> position \<Rightarrow> real option" where
  "closing_price client position =
     (case client of
        None \<Rightarrow> pos_entryPrice position
      | Some getTradeMetrics \<Rightarrow>
          (case getTradeMetrics (pos_currencyId position) of
             None \<Rightarrow> pos_entryPrice position
           | Some metrics \<Rightarrow>
               (if length metrics > 0
                then js_or (js_or (latest_estimate metrics) (latest_close metrics))
                       (pos_entryPrice position)
                else pos_entryPrice position)))"

record close_summary =
  closedCount :: nat
  totalPnL :: "real option"
  closedPositions :: "closed_position list"

text \<open>
  The loop of \<^verbatim>\<open>closeAllPositions\<close> over the snapshot of open positions,
  carrying the engine, the closed positions so far and the running total.
\<close>

fun close_loop :: "bitquery_client option \<Rightarrow> position list \<Rightarrow>
    engine \<times> closed_position list \<times> real option \<Rightarrow> engine \<times> closed_position list \<times> real option" where
  "close_loop client [] st = st"
| "close_loop client (position # rest) (eng, closedSoFar, sumPnL) =
     (let (eng', cp) = closePosition eng position (closing_price client position)
      in close_loop client rest (eng', closedSoFar @ [cp], js_add sumPnL (pnl cp)))"

definition closeAllPositions :: "engine \<Rightarrow> bitquery_client option \<Rightarrow> engine \<times> close_summary" where
  "closeAllPositions eng client =
     (let ps = getOpenPositions eng in
      if length ps = 0 then (eng, \<lparr>closedCount = 0, totalPnL = Some 0, closedPositions = []\<rparr>)
      else
        (let (eng', closedAll, sumPnL) = close_loop client ps (eng, [], Some 0)
         in (eng', \<lparr>closedCount = length closedAll, totalPnL = sumPnL,
                   closedPositions = closedAll\<rparr>)))"

subsection \<open>Executing a decision\<close>

text \<open>
  The terminal message is kept as its template and the values put into it;
  \<open>NoMessage\<close> is the empty string.
\<close>

datatype message =
    NoMessage
  | Opening string string real
  | Closing string string string "real option"
  | Holding string

record execution =
  msg :: message
  exec_decision :: string
  exec_currencyId :: string

definition displayName :: "currency_ref \<Rightarrow> string" where
  "displayName ref =
     network ref @ ''/'' @ take 10 (address ref) @ ''...''
       @ drop (length (address ref) - 6) (address ref)"

definition executeDecision :: "nat \<Rightarrow> engine \<Rightarrow> ai_decision \<Rightarrow> engine \<times> execution" where
  "executeDecision now eng aiDecision =
     (let ref = parseCurrencyId (currencyId aiDecision);
          name = displayName ref
      in
        if decision aiDecision = ''open'' then
          (case openPosition now eng aiDecision of
             (eng', Some position) \<Rightarrow>
               (eng', \<lparr>msg = Opening (positionType aiDecision) name (expectedProfit position),
                       exec_decision = decision aiDecision, exec_currencyId = name\<rparr>)
           | (eng', None) \<Rightarrow>
               (eng', \<lparr>msg = NoMessage, exec_decision = decision aiDecision,
                       exec_currencyId = name\<rparr>))
        else if decision aiDecision = ''close'' then
          (case map_get (positions eng) (address ref) of
             Some position \<Rightarrow>
               (let (eng', cp) = closePosition eng position (entryPrice aiDecision);
                    profitOrLoss = (case pnl cp of
                                      Some x \<Rightarrow> (if x \<ge> 0 then ''profit'' else ''loss'')
                                    | None \<Rightarrow> ''loss'')
                in (eng', \<lparr>msg = Closing (positionType aiDecision) name profitOrLoss
                                    (map_option abs (pnl cp)),
                           exec_decision = decision aiDecision, exec_currencyId = name\<rparr>))
           | None \<Rightarrow>
               (eng, \<lparr>msg = NoMessage, exec_decision = decision aiDecision,
                      exec_currencyId = name\<rparr>))
        else
          (eng, \<lparr>msg = Holding name, exec_decision = decision aiDecision,
                 exec_currencyId = name\<rparr>))"

section \<open>Batch decision resolver\<close>

subsection \<open>Reading parsed JSON the way JavaScript does\<close>

definition truthy :: "json option \<Rightarrow> bool" where
  "truthy v =
     (case v of
        None \<Rightarrow> False
      | Some JNull \<Rightarrow> False
      | Some (JBool b) \<Rightarrow> b
      | Some (JNum x) \<Rightarrow> x \<noteq> 0
      | Some (JStr s) \<Rightarrow> s \<noteq> []
      | Some (JArr xs) \<Rightarrow> True
      | Some (JObj kvs) \<Rightarrow> True)"

text \<open>
  \<^verbatim>\<open>v.name\<close> for the property names the engine reads (\<^verbatim>\<open>error\<close>,
  \<^verbatim>\<open>candidates\<close>, \<^verbatim>\<open>content\<close>, \<^verbatim>\<open>parts\<close>, \<^verbatim>\<open>text\<close>, \<^verbatim>\<open>currencyId\<close>,
  \<^verbatim>\<open>action\<close>, \<^verbatim>\<open>positionType\<close>, \<^verbatim>\<open>reasoning\<close>): reading a property of
  \<^verbatim>\<open>undefined\<close> or \<^verbatim>\<open>null\<close> raises, an object gives the value of its key
  (the last one, should the text repeat a key), and a boolean, number, string or
  array has none of these properties. \<^verbatim>\<open>v[0]\<close> is the first element of an
  array, the first character of a string, the key \<^verbatim>\<open>0\<close> of an object.
\<close>

definition get_prop :: "json option \<Rightarrow> string \<Rightarrow> js_error + json option" where
  "get_prop v name =
     (case v of
        None \<Rightarrow> Inl TypeError
      | Some JNull \<Rightarrow> Inl TypeError
      | Some (JObj kvs) \<Rightarrow> Inr (map_of (rev kvs) name)
      | Some other \<Rightarrow> Inr None)"

definition get_index0 :: "json option \<Rightarrow> js_error + json option" where
  "get_index0 v =
     (case v of
        None \<Rightarrow> Inl TypeError
      | Some JNull \<Rightarrow> Inl TypeError
      | Some (JArr xs) \<Rightarrow> Inr (case xs of [] \<Rightarrow> None | x # rest \<Rightarrow> Some x)
      | Some (JStr s) \<Rightarrow> Inr (case s of [] \<Rightarrow> None | ch # rest \<Rightarrow> Some (JStr [ch]))
      | Some (JObj kvs) \<Rightarrow> Inr (map_of (rev kvs) ''0'')
      | Some other \<Rightarrow> Inr None)"

text \<open>Sequencing of steps that may raise: the first error ends the computation.\<close>

definition and_then :: "js_error + 'a \<Rightarrow> ('a \<Rightarrow> js_error + 'b) \<Rightarrow> js_error + 'b" where
  "and_then m f = (case m of Inl e \<Rightarrow> Inl e | Inr x \<Rightarrow> f x)"

definition upper_char :: "char \<Rightarrow> char" where
  "upper_char c =
     (let n = (of_char c :: nat) in if 97 \<le> n \<and> n \<le> 122 then char_of (n - 32) else c)"

definition lower_char :: "char \<Rightarrow> char" where
  "lower_char c =
     (let n = (of_char c :: nat) in if 65 \<le> n \<and> n \<le> 90 then char_of (n + 32) else c)"

definition toUpperCase :: "string \<Rightarrow> string" where
  "toUpperCase s = map upper_char s"

definition toLowerCase :: "string \<Rightarrow> string" where
  "toLowerCase s = map lower_char s"

fun starts_with :: "string \<Rightarrow> string \<Rightarrow> bool" where
  "starts_with s [] = True"
| "starts_with [] (p # ps) = False"
| "starts_with (c # cs) (p # ps) = (c = p \<and> starts_with cs ps)"

fun includes_str :: "string \<Rightarrow> string \<Rightarrow> bool" where
  "includes_str [] pat = (pat = [])"
| "includes_str (c # cs) pat = (starts_with (c # cs) pat \<or> includes_str cs pat)"

text \<open>
  \<^verbatim>\<open>gptText.match(/\[[\s\S]*\]/)\<close>: from the first opening bracket to the last
  closing bracket after it, or no match.
\<close>

definition match_json_array :: "string \<Rightarrow> string option" where
  "match_json_array s =
     (let t = dropWhile (\<lambda>c. c \<noteq> CHR ''['') s in
      if t = [] then None
      else
        (let r = dropWhile (\<lambda>c. c \<noteq> CHR '']'') (rev (tl t)) in
         if r = [] then None else Some (CHR ''['' # rev r)))"

subsection \<open>Fallback for a whole batch\<close>

text \<open>
  \<^verbatim>\<open>currenciesWithMetrics.map(r => this.fallbackDecision(...))\<close>: a raise in one
  call ends the whole \<^verbatim>\<open>map\<close>.
\<close>

fun fallback_all :: "currency_metrics list \<Rightarrow> js_error + ai_decision list" where
  "fallback_all [] = Inr []"
| "fallback_all (r # rs) =
     and_then (fallbackDecision (m_currencyId r) (volatilityData r) (tradeMetrics r))
       (\<lambda>d. and_then (fallback_all rs) (\<lambda>ds. Inr (d # ds)))"

subsection \<open>Parsing the response of the reasoning service\<close>

text \<open>\<^verbatim>\<open>item.action?.toUpperCase() || 'HOLD'\<close>.\<close>

definition action_of :: "json option \<Rightarrow> js_error + string" where
  "action_of a =
     (case a of
        None \<Rightarrow> Inr ''HOLD''
      | Some JNull \<Rightarrow> Inr ''HOLD''
      | Some (JStr s) \<Rightarrow> Inr (if toUpperCase s = [] then ''HOLD'' else toUpperCase s)
      | Some other \<Rightarrow> Inl TypeError)"

text \<open>
  The position type: \<^verbatim>\<open>item.positionType.toLowerCase()\<close> when the field is
  truthy, which raises unless it is a string; else from the action text.
\<close>

definition type_of :: "json option \<Rightarrow> string \<Rightarrow> js_error + string" where
  "type_of pt action =
     (if truthy pt then
        (case pt of Some (JStr s) \<Rightarrow> Inr (toLowerCase s) | other \<Rightarrow> Inl TypeError)
      else if includes_str action ''SHORT'' then Inr ''short''
      else Inr ''long'')"

text \<open>\<^verbatim>\<open>item.reasoning || 'Market analysis completed'\<close>.\<close>

definition reasoning_of :: "json option \<Rightarrow> json" where
  "reasoning_of v =
     (case v of
        None \<Rightarrow> JStr ''Market analysis completed''
      | Some x \<Rightarrow> (if truthy (Some x) then x else JStr ''Market analysis completed''))"

definition decision_of_item :: "json \<Rightarrow> currency_metrics \<Rightarrow> js_error + ai_decision" where
  "decision_of_item item r =
     and_then (get_prop (Some item) ''action'') (\<lambda>a.
     and_then (action_of a) (\<lambda>action.
     and_then (get_prop (Some item) ''positionType'') (\<lambda>pt.
     and_then (type_of pt action) (\<lambda>type.
     and_then (get_prop (Some item) ''reasoning'') (\<lambda>rs.
       Inr \<lparr>currencyId = m_currencyId r,
            decision = (if includes_str action ''OPEN'' then ''open''
                        else if includes_str action ''CLOSE'' then ''close''
                        else ''hold''),
            positionType = type,
            confidence = 7 / 10,
            reasoning = reasoning_of rs,
            entryPrice = js_or (js_or (latest_estimate (tradeMetrics r))
                                      (latest_close (tradeMetrics r))) (Some 0)\<rparr>)))))"

text \<open>
  The lookup \<^verbatim>\<open>decisionMap\<close>. It is read with the identifiers of the input,
  which are strings, so an item filed under a key that is not a string is never
  found and is left out here.
\<close>

fun build_decision_map :: "json list \<Rightarrow> (string \<times> json) list \<Rightarrow> js_error + (string \<times> json) list" where
  "build_decision_map [] m = Inr m"
| "build_decision_map (item # items) m =
     and_then (get_prop (Some item) ''currencyId'') (\<lambda>cid.
       build_decision_map items
         (if truthy cid then (case cid of Some (JStr s) \<Rightarrow> map_set s item m | other \<Rightarrow> m)
          else m))"

fun match_decisions :: "(string \<times> json) list \<Rightarrow> currency_metrics list \<Rightarrow> js_error + ai_decision list" where
  "match_decisions dm [] = Inr []"
| "match_decisions dm (r # rs) =
     and_then (case map_get dm (m_currencyId r) of
             Some item \<Rightarrow> decision_of_item item r
           | None \<Rightarrow> fallbackDecision (m_currencyId r) (volatilityData r) (tradeMetrics r))
       (\<lambda>d. and_then (match_decisions dm rs) (\<lambda>ds. Inr (d # ds)))"

text \<open>
  The \<^verbatim>\<open>try\<close> block of \<^verbatim>\<open>parseMultiCurrencyResponse\<close>. \<^verbatim>\<open>JSON.parse\<close> is
  an argument: it gives the parsed value, or \<open>None\<close> where it raises a
  \<^verbatim>\<open>SyntaxError\<close>. A text that is not a string has no \<^verbatim>\<open>match\<close> method, and
  a parsed value that is not an array has no \<^verbatim>\<open>forEach\<close>.
\<close>

definition parse_try :: "(string \<Rightarrow> json option) \<Rightarrow> json option \<Rightarrow> currency_metrics list
    \<Rightarrow> js_error + ai_decision list" where
  "parse_try JSON_parse gptText records =
     (case gptText of
        Some (JStr txt) \<Rightarrow>
          (case match_json_array txt of
             None \<Rightarrow> Inl NoJsonArray
           | Some jsonMatch \<Rightarrow>
               (case JSON_parse jsonMatch of
                  None \<Rightarrow> Inl SyntaxError
                | Some (JArr items) \<Rightarrow>
                    and_then (build_decision_map items []) (\<lambda>dm. match_decisions dm records)
                | Some other \<Rightarrow> Inl TypeError))
      | other \<Rightarrow> Inl TypeError)"

definition parseMultiCurrencyResponse :: "(string \<Rightarrow> json option) \<Rightarrow> json option
    \<Rightarrow> currency_metrics list \<Rightarrow> js_error + ai_decision list" where
  "parseMultiCurrencyResponse JSON_parse gptText records =
     (case parse_try JSON_parse gptText records of
        Inr decisions \<Rightarrow> Inr decisions
      | Inl e \<Rightarrow> fallback_all records)"

subsection \<open>The call of the reasoning service\<close>

text \<open>
  What the \<^verbatim>\<open>try\<close> block of \<^verbatim>\<open>analyzeMultipleWithAI\<close> meets: building the
  prompt or \<^verbatim>\<open>fetch\<close> raises (\<open>Rejected\<close>), or there is a response with its
  \<^verbatim>\<open>ok\<close> flag and the value of \<^verbatim>\<open>response.json()\<close>, \<open>None\<close> where that
  raises.
\<close>

datatype fetch_result = Rejected | Response bool "json option"

definition analyze_try :: "(string \<Rightarrow> json option) \<Rightarrow> fetch_result \<Rightarrow> currency_metrics list
    \<Rightarrow> js_error + ai_decision list" where
  "analyze_try JSON_parse outcome records =
     (case outcome of
        Rejected \<Rightarrow> Inl FetchFailed
      | Response ok body \<Rightarrow>
          if \<not> ok then fallback_all records
          else
            (case body of
               None \<Rightarrow> Inl SyntaxError
             | Some data \<Rightarrow>
                 and_then (get_prop (Some data) ''error'') (\<lambda>err.
                 if truthy err then fallback_all records
                 else
                 and_then (get_prop (Some data) ''candidates'') (\<lambda>candidates.
                 if \<not> truthy candidates then fallback_all records
                 else
                 and_then (get_index0 candidates) (\<lambda>c0.
                 if \<not> truthy c0 then fallback_all records
                 else
                 and_then (get_prop c0 ''content'') (\<lambda>content.
                 if \<not> truthy content then fallback_all records
                 else
                 and_then (get_prop content ''parts'') (\<lambda>parts.
                 if \<not> truthy parts then fallback_all records
                 else
                 and_then (get_index0 parts) (\<lambda>p0.
                 if \<not> truthy p0 then fallback_all records
                 else
                 and_then (get_prop p0 ''text'') (\<lambda>responseText.
                   parseMultiCurrencyResponse JSON_parse responseText records)))))))))"

text \<open>
  \<^verbatim>\<open>analyzeMultipleWithAI\<close>. A missing key is \<^verbatim>\<open>null\<close> or the empty string.
  Whatever the \<^verbatim>\<open>try\<close> block raises is caught, and the handler returns the
  fallback decisions; a raise of \<^verbatim>\<open>fallbackDecision\<close> in the handler, or
  before the \<^verbatim>\<open>try\<close> block, leaves the function.
\<close>

definition analyzeMultipleWithAI :: "engine \<Rightarrow> (string \<Rightarrow> json option) \<Rightarrow> fetch_result
    \<Rightarrow> currency_metrics list \<Rightarrow> js_error + ai_decision list" where
  "analyzeMultipleWithAI eng JSON_parse outcome records =
     (if (case geminiApiKey eng of None \<Rightarrow> True | Some k \<Rightarrow> k = []) then fallback_all records
      else
        (case analyze_try JSON_parse outcome records of
           Inr decisions \<Rightarrow> Inr decisions
         | Inl e \<Rightarrow> fallback_all records))"

section \<open>Notions used in the statements\<close>

text \<open>The sum of the sizes of the positions in the map.\<close>

definition open_sizes :: "engine \<Rightarrow> real" where
  "open_sizes eng = sum_list (map (\<lambda>e. pos_size (snd e)) (positions eng))"

text \<open>
  The shape of the positions map: one entry per key, each filed under the
  address of its own position.
\<close>

definition ledger_wf :: "engine \<Rightarrow> bool" where
  "ledger_wf eng =
     (distinct (map fst (positions eng))
      \<and> list_all (\<lambda>e. tokenAddress (snd e) = fst e) (positions eng))"

text \<open>
  A sequence of calls of the ledger operations, run from some state of the
  engine.
\<close>

datatype call =
    CallOpen nat ai_decision
  | CallClose position "real option"
  | CallExecute nat ai_decision
  | CallCloseAll "bitquery_client option"

fun step :: "engine \<Rightarrow> call \<Rightarrow> engine" where
  "step eng (CallOpen now d) = fst (openPosition now eng d)"
| "step eng (CallClose p price) = fst (closePosition eng p price)"
| "step eng (CallExecute now d) = fst (executeDecision now eng d)"
| "step eng (CallCloseAll client) = fst (closeAllPositions eng client)"

definition run :: "engine \<Rightarrow> call list \<Rightarrow> engine" where
  "run eng calls = foldl step eng calls"

text \<open>
  Call sequences in which \<^verbatim>\<open>closePosition\<close> is given a position that the map
  holds, as \<^verbatim>\<open>executeDecision\<close> and \<^verbatim>\<open>closeAllPositions\<close> do.
\<close>

fun valid_calls :: "engine \<Rightarrow> call list \<Rightarrow> bool" where
  "valid_calls eng [] = True"
| "valid_calls eng (c # cs) =
     ((case c of
         CallClose p price \<Rightarrow> map_get (positions eng) (tokenAddress p) = Some p
       | other \<Rightarrow> True)
      \<and> valid_calls (step eng c) cs)"

text \<open>
  Call sequences in which no position is opened at an address that has one.
\<close>

fun opens_fresh :: "engine \<Rightarrow> call list \<Rightarrow> bool" where
  "opens_fresh eng [] = True"
| "opens_fresh eng (c # cs) =
     ((case c of
         CallOpen now d \<Rightarrow>
           map_get (positions eng) (address (parseCurrencyId (currencyId d))) = None
       | CallExecute now d \<Rightarrow>
           decision d = ''open'' \<longrightarrow>
             map_get (positions eng) (address (parseCurrencyId (currencyId d))) = None
       | other \<Rightarrow> True)
      \<and> opens_fresh (step eng c) cs)"

text \<open>
  The size of every position of an engine, and the accounting facts that its
  operations keep: every position has that size, and the allocated capital is
  a multiple of it that covers the open positions and stays under the guard.
\<close>

definition unit_size :: "engine \<Rightarrow> real" where
  "unit_size eng = capital eng * maxPositionSize (riskParams eng)"

definition ledger_inv :: "engine \<Rightarrow> bool" where
  "ledger_inv eng =
     (capital eng = 100000
      \<and> (riskParams eng = profile_low \<or> riskParams eng = profile_high)
      \<and> ledger_wf eng
      \<and> list_all (\<lambda>e. pos_size (snd e) = unit_size eng) (positions eng)
      \<and> (\<exists>n::nat. allocatedCapital eng = real n * unit_size eng
             \<and> length (positions eng) \<le> n
             \<and> real n * unit_size eng \<le> 9 / 10 * capital eng))"

definition sizes_agree :: "engine \<Rightarrow> bool" where
  "sizes_agree eng = (ledger_wf eng \<and> allocatedCapital eng = open_sizes eng)"

text \<open>What the liquidation loop does with one position.\<close>

definition close_at :: "bitquery_client option \<Rightarrow> position \<Rightarrow> closed_position" where
  "close_at client p = \<lparr>closed_of = p, currentPrice = closing_price client p,
     pnl = (if pos_type p = ''long''
            then js_mul (js_div (js_sub (closing_price client p) (pos_entryPrice p)) (pos_entryPrice p)) (Some (pos_size p))
            else js_mul (js_div (js_sub (pos_entryPrice p) (closing_price client p)) (pos_entryPrice p)) (Some (pos_size p)))\<rparr>"

subsection \<open>The fallback heuristic as the specification words it\<close>

text \<open>The three outcomes of the heuristic, and the outcome a decision carries.\<close>

datatype verdict = OpenLong | OpenShort | Hold

definition verdict_of :: "ai_decision \<Rightarrow> verdict option" where
  "verdict_of d =
     (if decision d = ''open'' \<and> positionType d = ''long'' then Some OpenLong
      else if decision d = ''open'' \<and> positionType d = ''short'' then Some OpenShort
      else if decision d = ''hold'' then Some Hold
      else None)"

text \<open>
  The rule of the specification on \<open>close\<close>, \<open>open\<close> and \<open>sma\<close>, and its
  \<open>sma\<close>: the weighted moving average, defaulting to the estimated price,
  defaulting to \<open>close\<close>, in that order when absent.
\<close>

definition spec_verdict :: "real \<Rightarrow> real \<Rightarrow> real \<Rightarrow> verdict" where
  "spec_verdict c opn sma =
     (if c > sma \<and> c > opn then OpenLong
      else if c \<le> sma \<and> c \<le> opn then OpenShort
      else Hold)"

definition spec_sma :: "price \<Rightarrow> real \<Rightarrow> real" where
  "spec_sma pr c =
     (case average_field WeightedSimpleMoving pr of
        Some w \<Rightarrow> w
      | None \<Rightarrow> (case average_field Estimate pr of Some e \<Rightarrow> e | None \<Rightarrow> c))"

text \<open>
  The same with a value that is absent or zero replaced by its default, as
  \<^verbatim>\<open>||\<close> does.
\<close>

definition nonzero_or :: "real option \<Rightarrow> real \<Rightarrow> real" where
  "nonzero_or a b = (case a of None \<Rightarrow> b | Some x \<Rightarrow> (if x \<noteq> 0 then x else b))"

definition code_sma :: "price \<Rightarrow> real \<Rightarrow> real" where
  "code_sma pr c =
     nonzero_or (average_field WeightedSimpleMoving pr) (nonzero_or (average_field Estimate pr) c)"

text \<open>The records for which \<^verbatim>\<open>fallbackDecision\<close> returns a decision.\<close>

definition fallback_ok :: "currency_metrics \<Rightarrow> bool" where
  "fallback_ok r =
     (case fallbackDecision (m_currencyId r) (volatilityData r) (tradeMetrics r) of
        Inl e \<Rightarrow> False | Inr d \<Rightarrow> True)"

subsection \<open>Concrete inputs\<close>

definition decision_A :: ai_decision where
  "decision_A = \<lparr>currencyId = ''bid:solana:ADDR123'', decision = ''open'', positionType = ''long'',
     confidence = 7 / 10, reasoning = JStr ''Market analysis completed'', entryPrice = Some 100\<rparr>"

definition decision_B :: ai_decision where
  "decision_B = \<lparr>currencyId = ''eth:ADDR456'', decision = ''open'', positionType = ''short'',
     confidence = 7 / 10, reasoning = JStr ''Market analysis completed'', entryPrice = Some 50\<rparr>"




definition position_A :: position where
  "position_A = \<lparr>pos_id = ''pos_1'', pos_currencyId = ''bid:solana:ADDR123'',
      tokenAddress = ''ADDR123'', pos_network = ''solana'', pos_type = ''long'',
      pos_entryPrice = Some 100, pos_size = 30000, timestamp = 1, pos_stopLoss = 90 / 100,
      pos_takeProfit = 115 / 100, pos_confidence = 7 / 10,
      pos_reasoning = JStr ''Market analysis completed'', expectedProfit = 4500\<rparr>"

text \<open>
  A \<^verbatim>\<open>JSON.parse\<close> that reads the one text \<open>txt\<close> as the value \<open>v\<close> and
  raises on every other text.
\<close>

definition parse_as :: "string \<Rightarrow> json \<Rightarrow> string \<Rightarrow> json option" where
  "parse_as txt v s = (if s = txt then Some v else None)"

definition sample_of :: "real option \<Rightarrow> real option \<Rightarrow> real option \<Rightarrow> real option \<Rightarrow> sample" where
  "sample_of est wsm opn cls =
     \<lparr>Price = Some \<lparr>Average = Some \<lparr>Estimate = est, WeightedSimpleMoving = wsm\<rparr>,
                     Ohlc = Some \<lparr>Open = opn, High = None, Low = None, Close = cls\<rparr>\<rparr>\<rparr>"

definition price_zero_sma :: price where
  "price_zero_sma = \<lparr>Average = Some \<lparr>Estimate = Some 10, WeightedSimpleMoving = Some 0\<rparr>,
                     Ohlc = Some \<lparr>Open = Some 3, High = None, Low = None, Close = Some 5\<rparr>\<rparr>"

definition record_no_metrics :: currency_metrics where
  "record_no_metrics = \<lparr>m_currencyId = ''eth:ADDR456'', volatilityData = JNull, tradeMetrics = []\<rparr>"

definition record_no_ohlc :: currency_metrics where
  "record_no_ohlc = \<lparr>m_currencyId = ''bid:solana:ADDR123'', volatilityData = JNull,
     tradeMetrics = [\<lparr>Price = Some \<lparr>Average = Some \<lparr>Estimate = Some 1, WeightedSimpleMoving = None\<rparr>,
                                    Ohlc = None\<rparr>\<rparr>]\<rparr>"

definition item_open_long :: json where
  "item_open_long = JObj [(''currencyId'', JStr ''eth:ADDR456''), (''action'', JStr ''OPEN LONG''),
     (''positionType'', JStr ''long''), (''reasoning'', JStr ''Strong bullish trend'')]"

definition decision_no_price :: ai_decision where
  "decision_no_price = \<lparr>currencyId = ''eth:ADDR456'', decision = ''open'', positionType = ''long'',
     confidence = 7 / 10, reasoning = JStr ''Strong bullish trend'', entryPrice = Some 0\<rparr>"

definition record_A :: currency_metrics where
  "record_A = \<lparr>m_currencyId = ''bid:solana:ADDR123'', volatilityData = JNull,
     tradeMetrics = [sample_of (Some 10) (Some 9) (Some 8) (Some 11)]\<rparr>"

definition record_D :: currency_metrics where
  "record_D = \<lparr>m_currencyId = ''bid:solana:ADDR789'', volatilityData = JNull,
     tradeMetrics = [\<lparr>Price = Some \<lparr>Average = Some \<lparr>Estimate = Some 1, WeightedSimpleMoving = None\<rparr>,
                                    Ohlc = None\<rparr>\<rparr>]\<rparr>"

section \<open>Properties\<close>

lemma split_on_nonempty: "split_on c s \<noteq> []"
  by (induction s) (auto split: list.splits)

lemma join_with_Cons: "ps \<noteq> [] \<Longrightarrow> join_with c (p # ps) = p @ c # join_with c ps"
  by (cases ps) auto

lemma join_split_on: "join_with c (split_on c s) = s"
proof (induction s)
  case Nil
  show ?case by simp
next
  case (Cons x xs)
  obtain p ps where sp: "split_on c xs = p # ps"
    using split_on_nonempty [of c xs] by (cases "split_on c xs") auto
  show ?case
  proof (cases "x = c")
    case True
    then show ?thesis using Cons sp by (simp add: join_with_Cons)
  next
    case False
    then show ?thesis using Cons sp by (cases ps) auto
  qed
qed

lemma split_on_parts_free: "p \<in> set (split_on c s) \<Longrightarrow> c \<notin> set p"
proof (induction s arbitrary: p)
  case Nil
  then show ?case by simp
next
  case (Cons x xs)
  obtain q qs where sp: "split_on c xs = q # qs"
    using split_on_nonempty [of c xs] by (cases "split_on c xs") auto
  have q: "c \<notin> set q" using Cons.IH [of q] sp by simp
  have qs: "\<And>r. r \<in> set qs \<Longrightarrow> c \<notin> set r" using Cons.IH sp by simp
  show ?case using Cons.prems sp q qs by (auto split: if_splits)
qed

lemma length_split_on: "length (split_on c s) = Suc (count_list s c)"
proof (induction s)
  case Nil
  show ?case by simp
next
  case (Cons x xs)
  have "split_on c xs \<noteq> []" by (rule split_on_nonempty)
  then show ?case using Cons by (cases "split_on c xs") auto
qed

text \<open>
  C8. Identifier parsing never fails and follows the number of parts that
  splitting on the colon yields: three parts give the second part as network and
  the third as address, two parts give the default network \<^verbatim>\<open>ethereum\<close> and the
  second part as address, any other shape gives network \<^verbatim>\<open>unknown\<close> and the
  whole input as address. The three identifiers of the specification parse as
  stated there.
\<close>

theorem parseCurrencyId_shapes:
  "(length (split_on CHR '':'' s) = 3 \<longrightarrow>
      parseCurrencyId s = \<lparr>network = split_on CHR '':'' s ! 1, address = split_on CHR '':'' s ! 2\<rparr>)
   \<and> (length (split_on CHR '':'' s) = 2 \<longrightarrow>
      parseCurrencyId s = \<lparr>network = ''ethereum'', address = split_on CHR '':'' s ! 1\<rparr>)
   \<and> (length (split_on CHR '':'' s) \<noteq> 3 \<and> length (split_on CHR '':'' s) \<noteq> 2 \<longrightarrow>
      parseCurrencyId s = \<lparr>network = ''unknown'', address = s\<rparr>)
   \<and> parseCurrencyId ''bid:solana:ADDR123'' = \<lparr>network = ''solana'', address = ''ADDR123''\<rparr>
   \<and> parseCurrencyId ''eth:ADDR456'' = \<lparr>network = ''ethereum'', address = ''ADDR456''\<rparr>
   \<and> parseCurrencyId ''garbage'' = \<lparr>network = ''unknown'', address = ''garbage''\<rparr>"
  by (simp add: parseCurrencyId_def Let_def)

theorem parseCurrencyId_shapes_witness:
  "length (split_on CHR '':'' ''a:b:c'') = 3
   \<and> parseCurrencyId ''a:b:c'' = \<lparr>network = ''b'', address = ''c''\<rparr>
   \<and> length (split_on CHR '':'' ''a:b'') = 2
   \<and> parseCurrencyId ''a:b'' = \<lparr>network = ''ethereum'', address = ''b''\<rparr>
   \<and> length (split_on CHR '':'' ''a:b:c:d'') \<noteq> 3 \<and> length (split_on CHR '':'' ''a:b:c:d'') \<noteq> 2
   \<and> parseCurrencyId ''a:b:c:d'' = \<lparr>network = ''unknown'', address = ''a:b:c:d''\<rparr>"
  using parseCurrencyId_shapes [of "''a:b:c''"] parseCurrencyId_shapes [of "''a:b''"]
    parseCurrencyId_shapes [of "''a:b:c:d''"]
  by simp

subsection \<open>The ledger\<close>

lemma map_set_keys: "set (map fst (map_set k v m)) = insert k (set (map fst m))"
  by (induction m) auto

lemma map_set_distinct: "distinct (map fst m) \<Longrightarrow> distinct (map fst (map_set k v m))"
proof (induction m)
  case Nil
  show ?case by simp
next
  case (Cons e m)
  then show ?case using map_set_keys [of k v m] by auto
qed

lemma map_set_all: "P (k, v) \<Longrightarrow> list_all P m \<Longrightarrow> list_all P (map_set k v m)"
  by (induction m) auto

lemma map_delete_distinct: "distinct (map fst m) \<Longrightarrow> distinct (map fst (map_delete k m))"
  by (simp add: map_delete_def distinct_map_filter)

lemma map_delete_all: "list_all P m \<Longrightarrow> list_all P (map_delete k m)"
  by (simp add: map_delete_def list_all_iff)

lemma ledger_wf_open: "ledger_wf eng \<Longrightarrow> ledger_wf (fst (openPosition now eng d))"
  by (simp add: openPosition_def ledger_wf_def Let_def map_set_distinct map_set_all)

lemma ledger_wf_close: "ledger_wf eng \<Longrightarrow> ledger_wf (fst (closePosition eng p price))"
  by (simp add: closePosition_def ledger_wf_def Let_def map_delete_distinct map_delete_all)





lemma ledger_wf_fresh: "ledger_wf (TradingEngine profile key)"
  by (simp add: TradingEngine_def ledger_wf_def)



lemma close_loop_result:
  "close_loop client ps (eng, acc, tot) =
     (eng\<lparr>positions := filter (\<lambda>e. fst e \<notin> tokenAddress ` set ps) (positions eng),
          allocatedCapital := allocatedCapital eng - sum_list (map pos_size ps)\<rparr>,
      acc @ map (close_at client) ps,
      foldl js_add tot (map (\<lambda>p. pnl (close_at client p)) ps))"
proof (induction ps arbitrary: eng acc tot)
  case Nil
  show ?case by simp
next
  case (Cons p ps)
  have f: "filter (\<lambda>e. fst e \<notin> tokenAddress ` set ps) (map_delete (tokenAddress p) (positions eng))
        = filter (\<lambda>e. fst e \<notin> tokenAddress ` set (p # ps)) (positions eng)"
    by (auto simp: map_delete_def intro: filter_cong)
  show ?case
    using f by (simp add: Cons.IH closePosition_def close_at_def Let_def algebra_simps)
qed

lemmas eval_defs = run_def TradingEngine_def getRiskParameters_def profile_low_def profile_high_def
  openPosition_def closePosition_def parseCurrencyId_def calculateExpectedProfit_def Let_def
  decision_A_def decision_B_def map_delete_def map_get_def show_nat_def

text \<open>
  C4. Capital guard: in every state of the ledger with
  \<open>allocatedCapital \<ge> 0.9 \<times> capital\<close>, \<^verbatim>\<open>openPosition\<close> returns \<^verbatim>\<open>null\<close>
  and leaves the positions, the allocated capital and the capital as they were.
\<close>

theorem openPosition_capital_guard:
  "allocatedCapital eng \<ge> 9 / 10 * capital eng \<Longrightarrow> openPosition now eng aiDecision = (eng, None)"
  by (simp add: openPosition_def mult.commute)

theorem openPosition_capital_guard_witness:
  "allocatedCapital (run (TradingEngine ''high'' None)
       [CallOpen 1 decision_A, CallOpen 2 decision_B, CallOpen 3 decision_A])
     \<ge> 9 / 10 * capital (run (TradingEngine ''high'' None)
       [CallOpen 1 decision_A, CallOpen 2 decision_B, CallOpen 3 decision_A])
   \<and> openPosition 4 (run (TradingEngine ''high'' None)
       [CallOpen 1 decision_A, CallOpen 2 decision_B, CallOpen 3 decision_A]) decision_B
     = (run (TradingEngine ''high'' None)
       [CallOpen 1 decision_A, CallOpen 2 decision_B, CallOpen 3 decision_A], None)"
proof -
  have h: "allocatedCapital (run (TradingEngine ''high'' None)
       [CallOpen 1 decision_A, CallOpen 2 decision_B, CallOpen 3 decision_A])
     \<ge> 9 / 10 * capital (run (TradingEngine ''high'' None)
       [CallOpen 1 decision_A, CallOpen 2 decision_B, CallOpen 3 decision_A])"
    by (simp add: eval_defs)
  show ?thesis using h openPosition_capital_guard [OF h] by blast
qed

text \<open>
  C6. For a position with a non-zero entry price and any current price,
  \<^verbatim>\<open>closePosition\<close> computes the realized profit or loss as
  \<open>(currentPrice - entryPrice) / entryPrice \<times> size\<close> when the type is
  \<^verbatim>\<open>long\<close> and as \<open>(entryPrice - currentPrice) / entryPrice \<times> size\<close>
  otherwise; a long position of size 30000 entered at 100 and closed at 115
  yields 4500.
\<close>

theorem closePosition_pnl:
  "(pos_entryPrice p = Some e \<and> e \<noteq> 0 \<longrightarrow>
      pnl (snd (closePosition eng p (Some c))) =
        (if pos_type p = ''long'' then Some ((c - e) / e * pos_size p)
         else Some ((e - c) / e * pos_size p)))
   \<and> (pos_type p = ''long'' \<and> pos_size p = 30000 \<and> pos_entryPrice p = Some 100 \<longrightarrow>
      pnl (snd (closePosition eng p (Some 115))) = Some 4500)"
  by (simp add: closePosition_def Let_def js_mul_def js_div_def js_sub_def)

theorem closePosition_pnl_witness:
  "pos_entryPrice position_A = Some 100 \<and> (100::real) \<noteq> 0
   \<and> pos_type position_A = ''long'' \<and> pos_size position_A = 30000
   \<and> pnl (snd (closePosition (TradingEngine ''high'' None) position_A (Some 115))) = Some 4500
   \<and> pnl (snd (closePosition (TradingEngine ''high'' None) (position_A\<lparr>pos_type := ''short''\<rparr>) (Some 115)))
       = Some (- 4500)"
  using closePosition_pnl [of position_A 100 "TradingEngine ''high'' None" 115]
    closePosition_pnl [of "position_A\<lparr>pos_type := ''short''\<rparr>" 100 "TradingEngine ''high'' None" 115]
  by (simp add: position_A_def)

text \<open>
  C10. A decision \<^verbatim>\<open>close\<close> for an address without an open position is a
  silent no-op of \<^verbatim>\<open>executeDecision\<close>: no error, an empty message, and the
  positions, the allocated capital and the capital unchanged.
\<close>

theorem executeDecision_close_absent:
  "decision aiDecision = ''close'' \<Longrightarrow>
   map_get (positions eng) (address (parseCurrencyId (currencyId aiDecision))) = None \<Longrightarrow>
   executeDecision now eng aiDecision =
     (eng, \<lparr>msg = NoMessage, exec_decision = ''close'',
            exec_currencyId = displayName (parseCurrencyId (currencyId aiDecision))\<rparr>)"
  by (simp add: executeDecision_def Let_def)

theorem executeDecision_close_absent_witness:
  "decision (decision_A\<lparr>decision := ''close''\<rparr>) = ''close''
   \<and> map_get (positions (TradingEngine ''low'' None))
        (address (parseCurrencyId (currencyId (decision_A\<lparr>decision := ''close''\<rparr>)))) = None
   \<and> executeDecision 7 (TradingEngine ''low'' None) (decision_A\<lparr>decision := ''close''\<rparr>)
       = (TradingEngine ''low'' None,
          \<lparr>msg = NoMessage, exec_decision = ''close'', exec_currencyId = ''solana/ADDR123...DDR123''\<rparr>)"
proof -
  have a: "decision (decision_A\<lparr>decision := ''close''\<rparr>) = ''close''" by simp
  have b: "map_get (positions (TradingEngine ''low'' None))
        (address (parseCurrencyId (currencyId (decision_A\<lparr>decision := ''close''\<rparr>)))) = None"
    by (simp add: TradingEngine_def map_get_def)
  have c: "displayName (parseCurrencyId (currencyId (decision_A\<lparr>decision := ''close''\<rparr>)))
      = ''solana/ADDR123...DDR123''"
    by (simp add: displayName_def parseCurrencyId_def decision_A_def Let_def)
  show ?thesis using a b executeDecision_close_absent [OF a b, of 7] c by simp
qed






subsection \<open>Capital accounting\<close>

lemma unit_size_cases:
  "capital eng = 100000 \<Longrightarrow> riskParams eng = profile_low \<or> riskParams eng = profile_high \<Longrightarrow>
   unit_size eng = 10000 \<or> unit_size eng = 30000"
  by (auto simp: unit_size_def profile_low_def profile_high_def)

lemma length_map_set: "length (map_set k v m) \<le> Suc (length m)"
  by (induction m) auto

lemma length_map_delete:
  "distinct (map fst m) \<Longrightarrow> map_of m k = Some v \<Longrightarrow> Suc (length (map_delete k m)) = length m"
proof (induction m)
  case Nil
  then show ?case by simp
next
  case (Cons e m)
  show ?case
  proof (cases "fst e = k")
    case True
    then have "k \<notin> fst ` set m" using Cons.prems by auto
    then have "filter (\<lambda>e. fst e \<noteq> k) m = m" by (auto simp: filter_id_conv)
    then show ?thesis using True by (simp add: map_delete_def)
  next
    case False
    then show ?thesis using Cons by (auto simp: map_delete_def)
  qed
qed

lemma next_unit_fits:
  fixes n :: nat and u :: real
  assumes u: "u = 10000 \<or> u = 30000" and lt: "real n * u < 90000"
  shows "real (Suc n) * u \<le> 90000"
proof -
  from u show ?thesis
  proof
    assume a: "u = 10000"
    then have "real n < real 9" using lt by simp
    then have "Suc n \<le> 9" by simp
    then have "real (Suc n) \<le> real 9" by (rule of_nat_mono)
    then show ?thesis using a by simp
  next
    assume a: "u = 30000"
    then have "real n < real 3" using lt by simp
    then have "Suc n \<le> 3" by simp
    then have "real (Suc n) \<le> real 3" by (rule of_nat_mono)
    then show ?thesis using a by simp
  qed
qed

lemma openPosition_accepted:
  "\<not> allocatedCapital eng \<ge> capital eng * (9 / 10) \<Longrightarrow>
   \<exists>pos. tokenAddress pos = address (parseCurrencyId (currencyId d))
     \<and> pos_size pos = unit_size eng
     \<and> openPosition now eng d =
         (eng\<lparr>positions := map_set (tokenAddress pos) pos (positions eng),
              allocatedCapital := allocatedCapital eng + unit_size eng\<rparr>, Some pos)"
  by (simp add: openPosition_def Let_def unit_size_def)

lemma ledger_inv_open: "ledger_inv eng \<Longrightarrow> ledger_inv (fst (openPosition now eng d))"
proof -
  assume inv: "ledger_inv eng"
  show ?thesis
  proof (cases "allocatedCapital eng \<ge> capital eng * (9 / 10)")
    case True
    then show ?thesis using inv by (simp add: openPosition_def)
  next
    case False
    obtain n :: nat where n: "allocatedCapital eng = real n * unit_size eng"
        "length (positions eng) \<le> n"
      using inv unfolding ledger_inv_def by blast
    have cap: "capital eng = 100000" using inv by (simp add: ledger_inv_def)
    have rp: "riskParams eng = profile_low \<or> riskParams eng = profile_high"
      using inv by (simp add: ledger_inv_def)
    have u: "unit_size eng = 10000 \<or> unit_size eng = 30000"
      using cap rp by (rule unit_size_cases)
    have old: "list_all (\<lambda>e. pos_size (snd e) = unit_size eng) (positions eng)"
      using inv by (simp add: ledger_inv_def)
    have "real n * unit_size eng < 90000" using False n cap by simp
    with u have fits: "real (Suc n) * unit_size eng \<le> 90000" by (rule next_unit_fits)
    obtain pos where pos: "pos_size pos = unit_size eng"
      and op: "openPosition now eng d =
         (eng\<lparr>positions := map_set (tokenAddress pos) pos (positions eng),
              allocatedCapital := allocatedCapital eng + unit_size eng\<rparr>, Some pos)"
      using openPosition_accepted [OF False, of d now] by blast
    define eng' where "eng' = fst (openPosition now eng d)"
    have eng': "eng' = eng\<lparr>positions := map_set (tokenAddress pos) pos (positions eng),
              allocatedCapital := allocatedCapital eng + unit_size eng\<rparr>"
      unfolding eng'_def op by simp
    have wf: "ledger_wf eng'" unfolding eng'_def using inv by (simp add: ledger_inv_def ledger_wf_open)
    have same: "capital eng' = 100000" "riskParams eng' = riskParams eng" "unit_size eng' = unit_size eng"
      using cap by (simp_all add: eng' unit_size_def)
    have alloc: "allocatedCapital eng' = real (Suc n) * unit_size eng"
      using n by (simp add: eng' algebra_simps)
    have "length (positions eng') \<le> Suc (length (positions eng))"
      by (simp add: eng' length_map_set)
    then have len: "length (positions eng') \<le> Suc n" using n by simp
    have sizes: "list_all (\<lambda>e. pos_size (snd e) = unit_size eng) (positions eng')"
      using old pos by (simp add: eng' map_set_all)
    have ex: "\<exists>m::nat. allocatedCapital eng' = real m * unit_size eng'
             \<and> length (positions eng') \<le> m
             \<and> real m * unit_size eng' \<le> 9 / 10 * capital eng'"
      using alloc len fits same by (intro exI [of _ "Suc n"]) simp
    have rp': "riskParams eng' = profile_low \<or> riskParams eng' = profile_high"
      using rp same(2) by simp
    have sizes': "list_all (\<lambda>e. pos_size (snd e) = unit_size eng') (positions eng')"
      using sizes same(3) by simp
    show ?thesis
      unfolding eng'_def [symmetric] ledger_inv_def
      using same(1) rp' wf sizes' ex by blast
  qed
qed

lemma closePosition_present:
  assumes inv: "ledger_inv eng" and p: "map_get (positions eng) (tokenAddress p) = Some p"
  shows "ledger_inv (fst (closePosition eng p price))"
proof -
  obtain n :: nat where n: "allocatedCapital eng = real n * unit_size eng"
      "length (positions eng) \<le> n" "real n * unit_size eng \<le> 9 / 10 * capital eng"
    using inv unfolding ledger_inv_def by blast
  have wf: "ledger_wf eng" using inv by (simp add: ledger_inv_def)
  have old: "list_all (\<lambda>e. pos_size (snd e) = unit_size eng) (positions eng)"
    using inv by (simp add: ledger_inv_def)
  have mem: "(tokenAddress p, p) \<in> set (positions eng)"
    using p by (simp add: map_get_def map_of_SomeD)
  have size: "pos_size p = unit_size eng"
    using old mem by (auto simp: list_all_iff)
  have len: "Suc (length (map_delete (tokenAddress p) (positions eng))) = length (positions eng)"
    using wf p by (simp add: ledger_wf_def map_get_def length_map_delete)
  then obtain m where m: "n = Suc m" using n(2) by (cases n) auto
  define eng' where "eng' = fst (closePosition eng p price)"
  have eng': "eng' = eng\<lparr>positions := map_delete (tokenAddress p) (positions eng),
              allocatedCapital := allocatedCapital eng - pos_size p\<rparr>"
    unfolding eng'_def by (simp add: closePosition_def Let_def)
  have wf': "ledger_wf eng'" unfolding eng'_def using wf by (rule ledger_wf_close)
  have same: "capital eng' = capital eng" "riskParams eng' = riskParams eng" "unit_size eng' = unit_size eng"
    by (simp_all add: eng' unit_size_def)
  have alloc: "allocatedCapital eng' = real m * unit_size eng"
    using n(1) m size by (simp add: eng' algebra_simps)
  have len': "length (positions eng') \<le> m" using len n(2) m by (simp add: eng')
  have sizes: "list_all (\<lambda>e. pos_size (snd e) = unit_size eng) (positions eng')"
    using old by (simp add: eng' map_delete_all)
  have nonneg: "0 \<le> unit_size eng"
    using inv unit_size_cases [of eng] by (auto simp: ledger_inv_def)
  have "real m * unit_size eng \<le> real n * unit_size eng"
    using m nonneg by (simp add: algebra_simps)
  then have fits: "real m * unit_size eng \<le> 9 / 10 * capital eng" using n(3) by simp
  have ex: "\<exists>k::nat. allocatedCapital eng' = real k * unit_size eng'
             \<and> length (positions eng') \<le> k
             \<and> real k * unit_size eng' \<le> 9 / 10 * capital eng'"
    using alloc len' fits same by (intro exI [of _ m]) simp
  have cap': "capital eng' = 100000" using inv same(1) by (simp add: ledger_inv_def)
  have rp': "riskParams eng' = profile_low \<or> riskParams eng' = profile_high"
    using inv same(2) by (simp add: ledger_inv_def)
  have sizes': "list_all (\<lambda>e. pos_size (snd e) = unit_size eng') (positions eng')"
    using sizes same(3) by simp
  show ?thesis
    unfolding eng'_def [symmetric] ledger_inv_def
    using cap' rp' wf' sizes' ex by blast
qed


lemma ledger_inv_execute: "ledger_inv eng \<Longrightarrow> ledger_inv (fst (executeDecision now eng d))"
proof -
  assume inv: "ledger_inv eng"
  have wf: "list_all (\<lambda>e. tokenAddress (snd e) = fst e) (positions eng)"
    using inv by (simp add: ledger_inv_def ledger_wf_def)
  have o: "ledger_inv (fst (openPosition now eng d))" using inv by (rule ledger_inv_open)
  have c: "ledger_inv (fst (closePosition eng p (entryPrice d)))"
    if "map_get (positions eng) (address (parseCurrencyId (currencyId d))) = Some p" for p
  proof -
    have "(address (parseCurrencyId (currencyId d)), p) \<in> set (positions eng)"
      using that by (simp add: map_get_def map_of_SomeD)
    then have "tokenAddress p = address (parseCurrencyId (currencyId d))"
      using wf by (auto simp: list_all_iff)
    then show ?thesis using inv that by (simp add: closePosition_present)
  qed
  show ?thesis
    using inv o c
    by (simp add: executeDecision_def Let_def split_def split: option.splits)
qed

lemma sum_unit_sizes:
  "list_all (\<lambda>e. pos_size (snd e) = u) m \<Longrightarrow> sum_list (map (\<lambda>e. pos_size (snd e)) m) = real (length m) * u"
  by (induction m) (auto simp: algebra_simps)

lemma closeAllPositions_engine:
  assumes wf: "ledger_wf eng"
  shows "fst (closeAllPositions eng client) =
    (if positions eng = [] then eng
     else eng\<lparr>positions := [],
              allocatedCapital := allocatedCapital eng
                - sum_list (map (\<lambda>e. pos_size (snd e)) (positions eng))\<rparr>)"
proof -
  have keys: "list_all (\<lambda>e. tokenAddress (snd e) = fst e) (positions eng)"
    using wf by (simp add: ledger_wf_def)
  have gone: "filter (\<lambda>e. fst e \<notin> tokenAddress ` set (getOpenPositions eng)) (positions eng) = []"
    using keys by (auto simp: getOpenPositions_def list_all_iff filter_empty_conv image_iff)
  show ?thesis
    by (simp add: closeAllPositions_def Let_def close_loop_result gone)
       (simp add: getOpenPositions_def comp_def)
qed

lemma ledger_inv_closeAll:
  assumes inv: "ledger_inv eng"
  shows "ledger_inv (fst (closeAllPositions eng client))"
proof (cases "positions eng = []")
  case True
  have "ledger_wf eng" using inv by (simp add: ledger_inv_def)
  then have "fst (closeAllPositions eng client) = eng"
    using True by (simp add: closeAllPositions_engine)
  then show ?thesis using inv by simp
next
  case False
  obtain n :: nat where n: "allocatedCapital eng = real n * unit_size eng"
      "length (positions eng) \<le> n" "real n * unit_size eng \<le> 9 / 10 * capital eng"
    using inv unfolding ledger_inv_def by blast
  have old: "list_all (\<lambda>e. pos_size (snd e) = unit_size eng) (positions eng)"
    using inv by (simp add: ledger_inv_def)
  have nonneg: "0 \<le> unit_size eng"
    using inv unit_size_cases [of eng] by (auto simp: ledger_inv_def)
  define k where "k = n - length (positions eng)"
  have k: "real n - real (length (positions eng)) = real k"
    unfolding k_def using n(2) by simp
  define eng' where "eng' = fst (closeAllPositions eng client)"
  have eng': "eng' = eng\<lparr>positions := [],
      allocatedCapital := allocatedCapital eng - real (length (positions eng)) * unit_size eng\<rparr>"
    unfolding eng'_def using inv False old
    by (simp add: closeAllPositions_engine ledger_inv_def sum_unit_sizes)
  have same: "capital eng' = capital eng" "riskParams eng' = riskParams eng" "unit_size eng' = unit_size eng"
    by (simp_all add: eng' unit_size_def)
  have "real n * unit_size eng - real (length (positions eng)) * unit_size eng
      = (real n - real (length (positions eng))) * unit_size eng"
    by (simp only: left_diff_distrib)
  then have alloc: "allocatedCapital eng' = real k * unit_size eng"
    using n(1) k by (simp add: eng')
  have "real k \<le> real n" unfolding k_def by simp
  then have "real k * unit_size eng \<le> real n * unit_size eng"
    using nonneg by (rule mult_right_mono)
  then have fits: "real k * unit_size eng \<le> 9 / 10 * capital eng" using n(3) by simp
  have ex: "\<exists>j::nat. allocatedCapital eng' = real j * unit_size eng'
             \<and> length (positions eng') \<le> j
             \<and> real j * unit_size eng' \<le> 9 / 10 * capital eng'"
    using alloc fits same by (intro exI [of _ k]) (simp add: eng')
  have wf': "ledger_wf eng'" by (simp add: eng' ledger_wf_def)
  have cap': "capital eng' = 100000" using inv same(1) by (simp add: ledger_inv_def)
  have rp': "riskParams eng' = profile_low \<or> riskParams eng' = profile_high"
    using inv same(2) by (simp add: ledger_inv_def)
  have sizes': "list_all (\<lambda>e. pos_size (snd e) = unit_size eng') (positions eng')"
    by (simp add: eng')
  show ?thesis
    unfolding eng'_def [symmetric] ledger_inv_def
    using cap' rp' wf' sizes' ex by blast
qed

lemma ledger_inv_fresh: "\<not> inherited_key profile \<Longrightarrow> ledger_inv (TradingEngine profile key)"
proof -
  have "\<exists>n::nat. (0::real) = real n * unit_size (TradingEngine profile key)
      \<and> (0::nat) \<le> n \<and> real n * unit_size (TradingEngine profile key) \<le> 9 / 10 * 100000"
    by (intro exI [of _ 0]) simp
  then show ?thesis
    by (simp add: ledger_inv_def TradingEngine_def getRiskParameters_def ledger_wf_def)
qed

lemma ledger_inv_run:
  "ledger_inv eng \<Longrightarrow> valid_calls eng calls \<Longrightarrow> ledger_inv (run eng calls)"
proof (induction calls arbitrary: eng)
  case Nil
  then show ?case by (simp add: run_def)
next
  case (Cons c calls)
  have "ledger_inv (step eng c)"
  proof (cases c)
    case (CallOpen now d)
    then show ?thesis using Cons.prems by (simp add: ledger_inv_open)
  next
    case (CallClose p price)
    then show ?thesis using Cons.prems by (simp add: closePosition_present)
  next
    case (CallExecute now d)
    then show ?thesis using Cons.prems by (simp add: ledger_inv_execute)
  next
    case (CallCloseAll client)
    then show ?thesis using Cons.prems by (simp add: ledger_inv_closeAll)
  qed
  moreover have "valid_calls (step eng c) calls" using Cons.prems by simp
  ultimately have "ledger_inv (run (step eng c) calls)" by (rule Cons.IH)
  then show ?case by (simp add: run_def)
qed

lemma capital_bounds:
  assumes "valid_calls (TradingEngine profile key) calls" and tag: "\<not> inherited_key profile"
  shows "0 \<le> open_sizes (run (TradingEngine profile key) calls)
    \<and> open_sizes (run (TradingEngine profile key) calls)
        \<le> allocatedCapital (run (TradingEngine profile key) calls)
    \<and> allocatedCapital (run (TradingEngine profile key) calls)
        \<le> 9 / 10 * capital (run (TradingEngine profile key) calls)
    \<and> capital (run (TradingEngine profile key) calls) = 100000"
proof -
  define eng where "eng = run (TradingEngine profile key) calls"
  have inv: "ledger_inv eng"
    unfolding eng_def using ledger_inv_fresh [OF tag] assms(1) by (rule ledger_inv_run)
  obtain n :: nat where n: "allocatedCapital eng = real n * unit_size eng"
      "length (positions eng) \<le> n" "real n * unit_size eng \<le> 9 / 10 * capital eng"
    using inv unfolding ledger_inv_def by blast
  have old: "list_all (\<lambda>e. pos_size (snd e) = unit_size eng) (positions eng)"
    using inv by (simp add: ledger_inv_def)
  have nonneg: "0 \<le> unit_size eng"
    using inv unit_size_cases [of eng] by (auto simp: ledger_inv_def)
  have sizes: "open_sizes eng = real (length (positions eng)) * unit_size eng"
    using old by (simp add: open_sizes_def sum_unit_sizes)
  have "real (length (positions eng)) \<le> real n" using n(2) by simp
  then have le: "open_sizes eng \<le> allocatedCapital eng"
    using nonneg n(1) sizes by (simp add: mult_right_mono)
  have pos: "0 \<le> open_sizes eng" using sizes nonneg by simp
  have cap: "capital eng = 100000" using inv by (simp add: ledger_inv_def)
  have up: "allocatedCapital eng \<le> 9 / 10 * capital eng"
    using n(3) by (simp only: n(1))
  show ?thesis
    unfolding eng_def [symmetric] using pos le up cap by blast
qed

lemma map_set_absent: "map_of m k = None \<Longrightarrow> map_set k v m = m @ [(k, v)]"
  by (induction m) (auto split: if_splits)

lemma sum_map_delete:
  "distinct (map fst m) \<Longrightarrow> map_of m k = Some p \<Longrightarrow>
   sum_list (map (\<lambda>e. pos_size (snd e)) (map_delete k m))
     = sum_list (map (\<lambda>e. pos_size (snd e)) m) - pos_size p"
proof (induction m)
  case Nil
  then show ?case by simp
next
  case (Cons e m)
  show ?case
  proof (cases "fst e = k")
    case True
    then have "k \<notin> fst ` set m" using Cons.prems by auto
    then have "filter (\<lambda>e. fst e \<noteq> k) m = m" by (auto simp: filter_id_conv)
    then show ?thesis using True Cons.prems by (simp add: map_delete_def)
  next
    case False
    then show ?thesis using Cons by (auto simp: map_delete_def)
  qed
qed

lemma sizes_agree_open:
  assumes "sizes_agree eng"
    and "map_get (positions eng) (address (parseCurrencyId (currencyId d))) = None"
  shows "sizes_agree (fst (openPosition now eng d))"
proof -
  have "ledger_wf (fst (openPosition now eng d))"
    using assms(1) by (simp add: sizes_agree_def ledger_wf_open)
  moreover have "allocatedCapital (fst (openPosition now eng d)) = open_sizes (fst (openPosition now eng d))"
    using assms
    by (simp add: sizes_agree_def openPosition_def Let_def open_sizes_def map_get_def map_set_absent)
  ultimately show ?thesis by (simp add: sizes_agree_def)
qed

lemma sizes_agree_close:
  assumes "sizes_agree eng" and "map_get (positions eng) (tokenAddress p) = Some p"
  shows "sizes_agree (fst (closePosition eng p price))"
proof -
  have "ledger_wf (fst (closePosition eng p price))"
    using assms(1) by (simp add: sizes_agree_def ledger_wf_close)
  moreover have "allocatedCapital (fst (closePosition eng p price))
      = open_sizes (fst (closePosition eng p price))"
    using assms
    by (simp add: sizes_agree_def closePosition_def Let_def open_sizes_def map_get_def
        ledger_wf_def sum_map_delete)
  ultimately show ?thesis by (simp add: sizes_agree_def)
qed

lemma sizes_agree_execute:
  assumes agree: "sizes_agree eng"
    and fresh: "decision d = ''open'' \<longrightarrow>
      map_get (positions eng) (address (parseCurrencyId (currencyId d))) = None"
  shows "sizes_agree (fst (executeDecision now eng d))"
proof -
  have wf: "list_all (\<lambda>e. tokenAddress (snd e) = fst e) (positions eng)"
    using agree by (simp add: sizes_agree_def ledger_wf_def)
  have o: "decision d = ''open'' \<Longrightarrow> sizes_agree (fst (openPosition now eng d))"
    using agree fresh by (simp add: sizes_agree_open)
  have c: "sizes_agree (fst (closePosition eng p (entryPrice d)))"
    if "map_get (positions eng) (address (parseCurrencyId (currencyId d))) = Some p" for p
  proof -
    have "(address (parseCurrencyId (currencyId d)), p) \<in> set (positions eng)"
      using that by (simp add: map_get_def map_of_SomeD)
    then have "tokenAddress p = address (parseCurrencyId (currencyId d))"
      using wf by (auto simp: list_all_iff)
    then show ?thesis using agree that by (simp add: sizes_agree_close)
  qed
  show ?thesis
    using agree o c
    by (simp add: executeDecision_def Let_def split_def split: option.splits)
qed

lemma sizes_agree_closeAll:
  assumes "sizes_agree eng"
  shows "sizes_agree (fst (closeAllPositions eng client))"
  using assms
  by (simp add: sizes_agree_def closeAllPositions_engine open_sizes_def ledger_wf_def)

lemma sizes_agree_run:
  "sizes_agree eng \<Longrightarrow> valid_calls eng calls \<Longrightarrow> opens_fresh eng calls \<Longrightarrow>
   sizes_agree (run eng calls)"
proof (induction calls arbitrary: eng)
  case Nil
  then show ?case by (simp add: run_def)
next
  case (Cons c calls)
  have "sizes_agree (step eng c)"
  proof (cases c)
    case (CallOpen now d)
    then show ?thesis using Cons.prems by (simp add: sizes_agree_open)
  next
    case (CallClose p price)
    then show ?thesis using Cons.prems by (simp add: sizes_agree_close)
  next
    case (CallExecute now d)
    then show ?thesis using Cons.prems by (simp add: sizes_agree_execute)
  next
    case (CallCloseAll client)
    then show ?thesis using Cons.prems by (simp add: sizes_agree_closeAll)
  qed
  moreover have "valid_calls (step eng c) calls" "opens_fresh (step eng c) calls"
    using Cons.prems by simp_all
  ultimately have "sizes_agree (run (step eng c) calls)" by (rule Cons.IH)
  then show ?case by (simp add: run_def)
qed

lemma capital_equals_open_sizes:
  assumes "valid_calls (TradingEngine profile key) calls"
    and "opens_fresh (TradingEngine profile key) calls"
    and "\<not> inherited_key profile"
  shows "allocatedCapital (run (TradingEngine profile key) calls)
    = open_sizes (run (TradingEngine profile key) calls)"
proof -
  have "sizes_agree (TradingEngine profile key)"
    by (simp add: sizes_agree_def ledger_wf_fresh) (simp add: TradingEngine_def open_sizes_def)
  then have "sizes_agree (run (TradingEngine profile key) calls)"
    using assms(1) assms(2) by (rule sizes_agree_run)
  then show ?thesis by (simp add: sizes_agree_def)
qed

text \<open>
  C1. The capital invariant asks that \<open>allocatedCapital\<close> equals the sum of the
  sizes of the open positions, also when \<^verbatim>\<open>openPosition\<close> overwrites the
  position at an address. Two opens of the same identifier on a fresh low-risk
  engine leave one position of size 10000 in the map and an allocated capital of
  20000; closing that position leaves no position and an allocated capital of
  10000.
\<close>

theorem overwrite_leaks_capital:
  "allocatedCapital (run (TradingEngine ''low'' None) [CallOpen 1 decision_A, CallOpen 2 decision_A]) = 20000
   \<and> open_sizes (run (TradingEngine ''low'' None) [CallOpen 1 decision_A, CallOpen 2 decision_A]) = 10000
   \<and> length (positions (run (TradingEngine ''low'' None) [CallOpen 1 decision_A, CallOpen 2 decision_A])) = 1
   \<and> allocatedCapital (run (TradingEngine ''low'' None)
        [CallOpen 1 decision_A, CallOpen 2 decision_A,
         CallExecute 3 (decision_A\<lparr>decision := ''close''\<rparr>)]) = 10000
   \<and> positions (run (TradingEngine ''low'' None)
        [CallOpen 1 decision_A, CallOpen 2 decision_A,
         CallExecute 3 (decision_A\<lparr>decision := ''close''\<rparr>)]) = []"
  by (simp add: eval_defs open_sizes_def executeDecision_def)

subsection \<open>The fallback heuristic\<close>

lemma js_or_Some: "js_or a (Some b) = Some (nonzero_or a b)"
  by (simp add: js_or_def truthy_num_def nonzero_or_def split: option.splits)

text \<open>
  C5, as stated, at a latest sample with weighted moving average 0, estimate 10,
  open 3 and close 5: the moving average is present, so the rule of the
  specification compares with 0 and gives open/long, while the code takes the
  zero for absent, compares with the estimate and holds.
\<close>

theorem fallbackDecision_zero_sma:
  "spec_sma price_zero_sma 5 = 0
   \<and> spec_verdict 5 3 (spec_sma price_zero_sma 5) = OpenLong
   \<and> map_sum id verdict_of (fallbackDecision ''bid:solana:ADDR123'' JNull [\<lparr>Price = Some price_zero_sma\<rparr>])
       = Inr (Some Hold)"
  by (simp add: spec_sma_def spec_verdict_def price_zero_sma_def average_field_def
      fallbackDecision_def Let_def js_or_def truthy_num_def js_gt_def verdict_of_def)

text \<open>
  C5, amended. For a record whose latest sample has a price with open and close,
  the heuristic compares \<open>close\<close> with \<open>open\<close> and with the moving average,
  where a moving average that is absent or zero defaults to the estimated price
  and an estimated price that is absent or zero defaults to \<open>close\<close>: open/long
  with confidence 0.6 when \<open>close > sma\<close> and \<open>close > open\<close>, open/short with
  confidence 0.6 when \<open>close \<le> sma\<close> and \<open>close \<le> open\<close>, hold with confidence
  0.6 otherwise. For a record with no samples it holds with confidence 0.5.
\<close>

theorem fallbackDecision_table:
  "fallbackDecision cid vol [] =
      Inr \<lparr>currencyId = cid, decision = ''hold'', positionType = ''long'', confidence = 5 / 10,
           reasoning = JStr ''No trade metrics available'', entryPrice = Some 0\<rparr>
   \<and> (metrics \<noteq> [] \<and> Price (last metrics) = Some pr \<and> Ohlc pr = Some oh
        \<and> Close oh = Some c \<and> Open oh = Some opn \<longrightarrow>
       (\<exists>d. fallbackDecision cid vol metrics = Inr d
          \<and> currencyId d = cid
          \<and> verdict_of d = Some (spec_verdict c opn (code_sma pr c))
          \<and> confidence d = 6 / 10
          \<and> entryPrice d = Some (nonzero_or (average_field Estimate pr) c)))"
  by (simp add: fallbackDecision_def Let_def js_or_Some js_gt_def verdict_of_def spec_verdict_def
      code_sma_def)

theorem fallbackDecision_table_witness:
  "[sample_of (Some 10) (Some 9) (Some 8) (Some 11)] \<noteq> []
   \<and> Price (last [sample_of (Some 10) (Some 9) (Some 8) (Some 11)])
       = Some \<lparr>Average = Some \<lparr>Estimate = Some 10, WeightedSimpleMoving = Some 9\<rparr>,
               Ohlc = Some \<lparr>Open = Some 8, High = None, Low = None, Close = Some 11\<rparr>\<rparr>
   \<and> code_sma \<lparr>Average = Some \<lparr>Estimate = Some 10, WeightedSimpleMoving = Some 9\<rparr>,
               Ohlc = Some \<lparr>Open = Some 8, High = None, Low = None, Close = Some 11\<rparr>\<rparr> 11 = 9
   \<and> map_sum id verdict_of (fallbackDecision ''bid:solana:ADDR123'' JNull
        [sample_of (Some 10) (Some 9) (Some 8) (Some 11)]) = Inr (Some OpenLong)
   \<and> map_sum id confidence (fallbackDecision ''bid:solana:ADDR123'' JNull
        [sample_of (Some 10) (Some 9) (Some 8) (Some 11)]) = Inr (6 / 10)"
  using fallbackDecision_table [of "''bid:solana:ADDR123''" JNull
      "[sample_of (Some 10) (Some 9) (Some 8) (Some 11)]"
      "\<lparr>Average = Some \<lparr>Estimate = Some 10, WeightedSimpleMoving = Some 9\<rparr>,
        Ohlc = Some \<lparr>Open = Some 8, High = None, Low = None, Close = Some 11\<rparr>\<rparr>"
      "\<lparr>Open = Some 8, High = None, Low = None, Close = Some 11\<rparr>" 11 8]
  by (auto simp: sample_of_def spec_verdict_def code_sma_def nonzero_or_def average_field_def)

subsection \<open>The batch resolver\<close>

lemma fallbackDecision_id: "fallbackDecision cid vol ms = Inr d \<Longrightarrow> currencyId d = cid"
  by (auto simp: fallbackDecision_def Let_def split: if_splits option.splits)

lemma decision_of_item_id: "decision_of_item item r = Inr d \<Longrightarrow> currencyId d = m_currencyId r"
  by (auto simp: decision_of_item_def and_then_def split: sum.splits)

lemma fallback_all_ids: "fallback_all rs = Inr ds \<Longrightarrow> map currencyId ds = map m_currencyId rs"
proof (induction rs arbitrary: ds)
  case Nil
  then show ?case by simp
next
  case (Cons r rs)
  then show ?case
    by (auto simp: and_then_def split: sum.splits dest: fallbackDecision_id)
qed

lemma fallback_all_total:
  "list_all fallback_ok rs \<Longrightarrow> \<exists>ds. fallback_all rs = Inr ds"
proof (induction rs)
  case Nil
  show ?case by simp
next
  case (Cons r rs)
  then show ?case
    by (auto simp: and_then_def fallback_ok_def split: sum.splits)
qed

lemma match_decisions_ids:
  "match_decisions dm rs = Inr ds \<Longrightarrow> map currencyId ds = map m_currencyId rs"
proof (induction rs arbitrary: ds)
  case Nil
  then show ?case by simp
next
  case (Cons r rs)
  then show ?case
    by (auto simp: and_then_def split: sum.splits option.splits
        dest: fallbackDecision_id decision_of_item_id)
qed

lemma parse_try_ids:
  "parse_try JSON_parse txt rs = Inr ds \<Longrightarrow> map currencyId ds = map m_currencyId rs"
  by (auto simp: parse_try_def and_then_def
      split: option.splits json.splits sum.splits dest: match_decisions_ids)

lemma parseMultiCurrencyResponse_ids:
  "parseMultiCurrencyResponse JSON_parse txt rs = Inr ds \<Longrightarrow> map currencyId ds = map m_currencyId rs"
  by (auto simp: parseMultiCurrencyResponse_def split: sum.splits
      dest: parse_try_ids fallback_all_ids)

lemma parseMultiCurrencyResponse_total:
  "list_all fallback_ok rs \<Longrightarrow> \<exists>ds. parseMultiCurrencyResponse JSON_parse txt rs = Inr ds"
  using fallback_all_total [of rs]
  by (auto simp: parseMultiCurrencyResponse_def split: sum.splits)

lemma analyze_try_cases:
  "analyze_try JSON_parse outcome rs = fallback_all rs
   \<or> (\<exists>txt. analyze_try JSON_parse outcome rs = parseMultiCurrencyResponse JSON_parse txt rs)
   \<or> (\<exists>e. analyze_try JSON_parse outcome rs = Inl e)"
  by (auto simp: analyze_try_def and_then_def split: fetch_result.splits option.splits sum.splits)

lemma analyzeMultipleWithAI_cases:
  "analyzeMultipleWithAI eng JSON_parse outcome rs = fallback_all rs
   \<or> (\<exists>txt. analyzeMultipleWithAI eng JSON_parse outcome rs
         = parseMultiCurrencyResponse JSON_parse txt rs)"
proof -
  consider (a) "analyze_try JSON_parse outcome rs = fallback_all rs"
    | (b) t where "analyze_try JSON_parse outcome rs = parseMultiCurrencyResponse JSON_parse t rs"
    | (c) e where "analyze_try JSON_parse outcome rs = Inl e"
    using analyze_try_cases [of JSON_parse outcome rs] by blast
  then show ?thesis
  proof cases
    case a
    then show ?thesis
      by (cases "fallback_all rs") (simp_all add: analyzeMultipleWithAI_def)
  next
    case b
    show ?thesis
    proof (cases "parseMultiCurrencyResponse JSON_parse t rs")
      case (Inl e)
      then have "analyzeMultipleWithAI eng JSON_parse outcome rs = fallback_all rs"
        using b by (simp add: analyzeMultipleWithAI_def)
      then show ?thesis by blast
    next
      case (Inr ds)
      then have "analyzeMultipleWithAI eng JSON_parse outcome rs = fallback_all rs
          \<or> analyzeMultipleWithAI eng JSON_parse outcome rs
              = parseMultiCurrencyResponse JSON_parse t rs"
        using b by (simp add: analyzeMultipleWithAI_def)
      then show ?thesis by blast
    qed
  next
    case c
    then show ?thesis by (simp add: analyzeMultipleWithAI_def)
  qed
qed

lemma analyzeMultipleWithAI_wellformed:
  assumes "list_all fallback_ok rs"
  shows "\<exists>ds. analyzeMultipleWithAI eng JSON_parse outcome rs = Inr ds
           \<and> length ds = length rs \<and> map currencyId ds = map m_currencyId rs"
proof -
  obtain ds where ds: "analyzeMultipleWithAI eng JSON_parse outcome rs = Inr ds"
    using analyzeMultipleWithAI_cases [of eng JSON_parse outcome rs]
      fallback_all_total [OF assms] parseMultiCurrencyResponse_total [OF assms]
    by metis
  have ids: "map currencyId ds = map m_currencyId rs"
    using analyzeMultipleWithAI_cases [of eng JSON_parse outcome rs] ds
      fallback_all_ids parseMultiCurrencyResponse_ids
    by metis
  have "length ds = length rs" using ids by (rule map_eq_imp_length_eq)
  then show ?thesis using ds ids by simp
qed

lemma analyzeMultipleWithAI_failure_modes:
  "geminiApiKey eng = None \<or> geminiApiKey eng = Some [] \<or> outcome = Rejected
   \<or> outcome = Response False body \<or> outcome = Response True None
   \<Longrightarrow> analyzeMultipleWithAI eng JSON_parse outcome rs = fallback_all rs"
  by (auto simp: analyzeMultipleWithAI_def analyze_try_def split: sum.splits option.splits)

lemma analyzeMultipleWithAI_api_error:
  "truthy (map_of (rev kvs) ''error'') \<Longrightarrow>
   analyzeMultipleWithAI eng JSON_parse (Response True (Some (JObj kvs))) rs = fallback_all rs"
  by (simp add: analyzeMultipleWithAI_def analyze_try_def and_then_def get_prop_def
      split: sum.splits option.splits)

lemma analyzeMultipleWithAI_no_candidates:
  "\<not> truthy (map_of (rev kvs) ''candidates'') \<Longrightarrow>
   analyzeMultipleWithAI eng JSON_parse (Response True (Some (JObj kvs))) rs = fallback_all rs"
  by (simp add: analyzeMultipleWithAI_def analyze_try_def and_then_def get_prop_def
      split: sum.splits option.splits)

lemma parseMultiCurrencyResponse_unparsable:
  "match_json_array s = None \<or> (\<exists>m. match_json_array s = Some m \<and> JSON_parse m = None)
   \<Longrightarrow> parseMultiCurrencyResponse JSON_parse (Some (JStr s)) rs = fallback_all rs"
  by (auto simp: parseMultiCurrencyResponse_def parse_try_def split: sum.splits)

lemma match_decisions_omitted:
  "match_decisions dm rs = Inr ds \<Longrightarrow> i < length rs \<Longrightarrow> map_get dm (m_currencyId (rs ! i)) = None
   \<Longrightarrow> fallbackDecision (m_currencyId (rs ! i)) (volatilityData (rs ! i)) (tradeMetrics (rs ! i))
         = Inr (ds ! i)"
proof (induction rs arbitrary: ds i)
  case Nil
  then show ?case by simp
next
  case (Cons r rs)
  show ?case
  proof (cases i)
    case 0
    then show ?thesis using Cons.prems
      by (auto simp: and_then_def split: sum.splits)
  next
    case (Suc j)
    then show ?thesis using Cons.prems Cons.IH [of _ j]
      by (auto simp: and_then_def split: sum.splits)
  qed
qed

text \<open>
  C3. The resolver is to hand the fallback decision to every record under
  every failure of the reasoning service and never to raise. With the API key
  absent (whatever the service would answer), and with the key present and the
  transport failing, a batch of one record whose latest sample has a price
  without an \<^verbatim>\<open>Ohlc\<close> object makes \<^verbatim>\<open>fallbackDecision\<close> raise a
  \<^verbatim>\<open>TypeError\<close>, which leaves \<^verbatim>\<open>analyzeMultipleWithAI\<close>.
\<close>

theorem analyzeMultipleWithAI_raises_without_ohlc:
  "analyzeMultipleWithAI (TradingEngine ''high'' None) JSON_parse outcome [record_no_ohlc] = Inl TypeError
   \<and> analyzeMultipleWithAI (TradingEngine ''high'' (Some ''key'')) JSON_parse Rejected [record_no_ohlc]
       = Inl TypeError"
  by (simp add: analyzeMultipleWithAI_def analyze_try_def TradingEngine_def record_no_ohlc_def
      fallbackDecision_def and_then_def)

text \<open>
  C2. The resolver is to return one decision per record, in order, for every
  batch and every response. On a batch of three records whose third has a latest
  sample with a price but no \<^verbatim>\<open>Ohlc\<close> object, and a response with an HTTP
  error status, it returns no decisions: the \<^verbatim>\<open>TypeError\<close> of
  \<^verbatim>\<open>fallbackDecision\<close> leaves it.
\<close>

theorem analyzeMultipleWithAI_batch_without_ohlc:
  "analyzeMultipleWithAI (TradingEngine ''high'' (Some ''key'')) JSON_parse (Response False body)
       [record_A, record_no_metrics, record_D] = Inl TypeError
   \<and> length [record_A, record_no_metrics, record_D] = 3"
  by (simp add: analyzeMultipleWithAI_def analyze_try_def TradingEngine_def record_A_def
      record_no_metrics_def record_D_def sample_of_def fallbackDecision_def and_then_def Let_def)

subsection \<open>Entry prices\<close>

lemma map_get_map_set: "map_get (map_set k v m) k = Some v"
  by (induction m) (auto simp: map_get_def)

text \<open>
  C9, as stated, at a record without samples for which the reasoning service
  answers \<^verbatim>\<open>OPEN LONG\<close>: the parser gives the decision the entry price 0, a
  fresh low-risk engine accepts it, and the stored position has entry price 0.
\<close>

theorem parser_decision_zero_entryPrice:
  "parseMultiCurrencyResponse (parse_as ''[item]'' (JArr [item_open_long]))
       (Some (JStr ''Decisions: [item]'')) [record_no_metrics] = Inr [decision_no_price]
   \<and> map_option pos_entryPrice
        (snd (openPosition 1 (TradingEngine ''low'' (Some ''key'')) decision_no_price)) = Some (Some 0)"
  by (simp add: parseMultiCurrencyResponse_def parse_try_def match_json_array_def parse_as_def
      item_open_long_def record_no_metrics_def decision_no_price_def and_then_def get_prop_def
      map_get_def decision_of_item_def action_of_def type_of_def reasoning_of_def truthy_def
      toUpperCase_def toLowerCase_def upper_char_def lower_char_def latest_estimate_def
      latest_close_def latest_def js_or_def truthy_num_def openPosition_def TradingEngine_def
      getRiskParameters_def profile_low_def Let_def)

lemma match_decisions_found:
  "match_decisions dm rs = Inr ds \<Longrightarrow> i < length rs \<Longrightarrow>
   map_get dm (m_currencyId (rs ! i)) = Some item \<Longrightarrow>
   decision_of_item item (rs ! i) = Inr (ds ! i)"
proof (induction rs arbitrary: ds i)
  case Nil
  then show ?case by simp
next
  case (Cons r rs)
  show ?case
  proof (cases i)
    case 0
    then show ?thesis using Cons.prems
      by (auto simp: and_then_def split: sum.splits)
  next
    case (Suc k)
    then show ?thesis using Cons.prems Cons.IH [of _ k]
      by (auto simp: and_then_def split: sum.splits)
  qed
qed

lemma decision_of_item_zero:
  "decision_of_item item r = Inr d \<Longrightarrow>
   \<not> truthy_num (latest_estimate (tradeMetrics r)) \<Longrightarrow>
   \<not> truthy_num (latest_close (tradeMetrics r)) \<Longrightarrow> entryPrice d = Some 0"
  by (auto simp: decision_of_item_def and_then_def js_or_def split: sum.splits)

text \<open>
  C9, amended. A position that \<^verbatim>\<open>openPosition\<close> creates (guard not triggered)
  carries the entry price of the decision, so it is strictly positive exactly
  when that of the decision is. A decision that the response parser builds from
  an item of the response, for a record whose estimated price and close price
  are both absent or zero, as they are when the record has no samples, has
  entry price 0.
\<close>

theorem openPosition_stores_entryPrice:
  "(\<not> allocatedCapital eng \<ge> 9 / 10 * capital eng \<longrightarrow>
      map_option pos_entryPrice (snd (openPosition now eng d)) = Some (entryPrice d)
      \<and> map_option pos_entryPrice
            (map_get (positions (fst (openPosition now eng d)))
               (address (parseCurrencyId (currencyId d)))) = Some (entryPrice d))
   \<and> (match_json_array s = Some m \<and> JSON_parse m = Some (JArr items)
        \<and> build_decision_map items [] = Inr dm \<and> match_decisions dm rs = Inr ds
        \<and> i < length rs \<and> map_get dm (m_currencyId (rs ! i)) = Some item
        \<and> \<not> truthy_num (latest_estimate (tradeMetrics (rs ! i)))
        \<and> \<not> truthy_num (latest_close (tradeMetrics (rs ! i))) \<longrightarrow>
       parseMultiCurrencyResponse JSON_parse (Some (JStr s)) rs = Inr ds
       \<and> entryPrice (ds ! i) = Some 0)
   \<and> (tradeMetrics r = [] \<longrightarrow>
        \<not> truthy_num (latest_estimate (tradeMetrics r)) \<and> \<not> truthy_num (latest_close (tradeMetrics r)))"
proof -
  have a: "\<not> allocatedCapital eng \<ge> 9 / 10 * capital eng \<longrightarrow>
      map_option pos_entryPrice (snd (openPosition now eng d)) = Some (entryPrice d)
      \<and> map_option pos_entryPrice
            (map_get (positions (fst (openPosition now eng d)))
               (address (parseCurrencyId (currencyId d)))) = Some (entryPrice d)"
    by (simp add: openPosition_def Let_def map_get_map_set mult.commute)
  have b: "parseMultiCurrencyResponse JSON_parse (Some (JStr s)) rs = Inr ds
       \<and> entryPrice (ds ! i) = Some 0"
    if "match_json_array s = Some m" "JSON_parse m = Some (JArr items)"
      "build_decision_map items [] = Inr dm" "match_decisions dm rs = Inr ds"
      "i < length rs" "map_get dm (m_currencyId (rs ! i)) = Some item"
      "\<not> truthy_num (latest_estimate (tradeMetrics (rs ! i)))"
      "\<not> truthy_num (latest_close (tradeMetrics (rs ! i)))"
  proof -
    have "parse_try JSON_parse (Some (JStr s)) rs = Inr ds"
      using that(1-4) by (simp add: parse_try_def and_then_def)
    then have p: "parseMultiCurrencyResponse JSON_parse (Some (JStr s)) rs = Inr ds"
      by (simp add: parseMultiCurrencyResponse_def)
    have "decision_of_item item (rs ! i) = Inr (ds ! i)"
      using that(4-6) by (rule match_decisions_found)
    then have "entryPrice (ds ! i) = Some 0"
      using that(7) that(8) by (rule decision_of_item_zero)
    then show ?thesis using p by simp
  qed
  have c: "tradeMetrics r = [] \<longrightarrow>
        \<not> truthy_num (latest_estimate (tradeMetrics r)) \<and> \<not> truthy_num (latest_close (tradeMetrics r))"
    by (simp add: latest_estimate_def latest_close_def latest_def truthy_num_def)
  show ?thesis using a b c by blast
qed

theorem openPosition_stores_entryPrice_witness:
  "\<not> allocatedCapital (TradingEngine ''low'' (Some ''key''))
        \<ge> 9 / 10 * capital (TradingEngine ''low'' (Some ''key''))
   \<and> map_option pos_entryPrice
        (snd (openPosition 1 (TradingEngine ''low'' (Some ''key'')) decision_no_price)) = Some (Some 0)
   \<and> map_option pos_entryPrice
        (map_get (positions (fst (openPosition 1 (TradingEngine ''low'' (Some ''key'')) decision_no_price)))
           ''ADDR456'') = Some (Some 0)
   \<and> match_json_array ''Decisions: [item]'' = Some ''[item]''
   \<and> parse_as ''[item]'' (JArr [item_open_long]) ''[item]'' = Some (JArr [item_open_long])
   \<and> build_decision_map [item_open_long] [] = Inr [(''eth:ADDR456'', item_open_long)]
   \<and> match_decisions [(''eth:ADDR456'', item_open_long)] [record_no_metrics] = Inr [decision_no_price]
   \<and> map_get [(''eth:ADDR456'', item_open_long)] (m_currencyId ([record_no_metrics] ! 0))
       = Some item_open_long
   \<and> tradeMetrics record_no_metrics = []
   \<and> parseMultiCurrencyResponse (parse_as ''[item]'' (JArr [item_open_long]))
        (Some (JStr ''Decisions: [item]'')) [record_no_metrics] = Inr [decision_no_price]
   \<and> entryPrice ([decision_no_price] ! 0) = Some 0"
proof -
  have g: "\<not> allocatedCapital (TradingEngine ''low'' (Some ''key''))
        \<ge> 9 / 10 * capital (TradingEngine ''low'' (Some ''key''))"
    by (simp add: TradingEngine_def)
  have ad: "address (parseCurrencyId (currencyId decision_no_price)) = ''ADDR456''"
    by (simp add: parseCurrencyId_def decision_no_price_def Let_def)
  have ep: "entryPrice decision_no_price = Some 0" by (simp add: decision_no_price_def)
  have h1: "match_json_array ''Decisions: [item]'' = Some ''[item]''"
    by (simp add: match_json_array_def Let_def)
  have h2: "parse_as ''[item]'' (JArr [item_open_long]) ''[item]'' = Some (JArr [item_open_long])"
    by (simp add: parse_as_def)
  have h3: "build_decision_map [item_open_long] [] = Inr [(''eth:ADDR456'', item_open_long)]"
    by (simp add: item_open_long_def and_then_def get_prop_def truthy_def)
  have h4: "match_decisions [(''eth:ADDR456'', item_open_long)] [record_no_metrics]
      = Inr [decision_no_price]"
    by (simp add: item_open_long_def record_no_metrics_def decision_no_price_def and_then_def
        get_prop_def map_get_def decision_of_item_def action_of_def type_of_def reasoning_of_def
        truthy_def toUpperCase_def toLowerCase_def upper_char_def lower_char_def
        latest_estimate_def latest_close_def latest_def js_or_def truthy_num_def)
  have h5: "(0::nat) < length [record_no_metrics]" by simp
  have h6: "map_get [(''eth:ADDR456'', item_open_long)] (m_currencyId ([record_no_metrics] ! 0))
       = Some item_open_long"
    by (simp add: map_get_def record_no_metrics_def)
  have h7: "tradeMetrics record_no_metrics = []" by (simp add: record_no_metrics_def)
  show ?thesis
    using g ad ep h1 h2 h3 h4 h5 h6 h7
      openPosition_stores_entryPrice [of "TradingEngine ''low'' (Some ''key'')" 1 decision_no_price
        "''Decisions: [item]''" "''[item]''" "parse_as ''[item]'' (JArr [item_open_long])"
        "[item_open_long]" "[(''eth:ADDR456'', item_open_long)]" "[record_no_metrics]"
        "[decision_no_price]" 0 item_open_long record_no_metrics]
    by simp
qed

end
